theory Spec2Isabelle
  imports Main "HOL-Library.Word"
begin

section \<open>Common ground: pointers, the C heap, outcomes\<close>

text \<open>
  Pointers are heap addresses; a pointer variable that may be \<open>NULL\<close> is a
  \<open>ptr option\<close> (\<open>None\<close> is \<open>NULL\<close>). \<open>size_t\<close> and \<open>na_size_t\<close> are 64-bit
  unsigned words (LP64), so that subtraction wraps as in C.
\<close>

type_synonym ptr = nat
type_synonym bytes = "8 word list"
type_synonym size_t = "64 word"

text \<open>
  A call of the C code either returns (\<open>Done\<close>), or has undefined behaviour
  (\<open>Undefined\<close>: a dereference of \<open>NULL\<close> or of freed memory, a double free), or
  never returns (\<open>Diverged\<close>: a wait loop whose completion never arrives), or ends the
  process (\<open>Exited\<close>: \<open>err(EXIT_FAILURE, ...)\<close>). None of the last three is a return
  value of the C function: \<open>Undefined\<close> in particular is not a rejection, the C code
  checks nothing there.
\<close>

datatype 'a outcome = Done 'a | Undefined | Diverged | Exited

definition obind :: "'a outcome \<Rightarrow> ('a \<Rightarrow> 'b outcome) \<Rightarrow> 'b outcome" where
  "obind m f = (case m of Done x \<Rightarrow> f x | Undefined \<Rightarrow> Undefined
                | Diverged \<Rightarrow> Diverged | Exited \<Rightarrow> Exited)"

text \<open>
  The heap of \<open>malloc\<close>/\<open>free\<close>: the live blocks with their sizes, the next fresh
  address (also used for the handles of transport objects, so that all pointers are
  distinct) and the bytes \<open>malloc\<close> can still hand out; \<open>malloc\<close> returns \<open>NULL\<close>
  when the request exceeds them.
\<close>

record heap_t =
  blocks :: "ptr \<rightharpoonup> nat"
  next_ptr :: ptr
  avail :: nat

definition malloc :: "nat \<Rightarrow> heap_t \<Rightarrow> ptr option \<times> heap_t" where
  "malloc n h =
     (if n \<le> avail h
      then (Some (next_ptr h),
            h\<lparr>blocks := (blocks h)(next_ptr h \<mapsto> n),
              next_ptr := Suc (next_ptr h),
              avail := avail h - n\<rparr>)
      else (None, h))"

text \<open>\<open>free(NULL)\<close> does nothing; freeing a block that is not live is undefined.\<close>

definition free :: "ptr option \<Rightarrow> heap_t \<Rightarrow> heap_t outcome" where
  "free p h =
     (case p of
        None \<Rightarrow> Done h
      | Some a \<Rightarrow>
          (case blocks h a of
             None \<Rightarrow> Undefined
           | Some n \<Rightarrow> Done (h\<lparr>blocks := (blocks h)(a := None), avail := avail h + n\<rparr>)))"

text \<open>A fresh handle for an object that the transport or the codec allocates.\<close>

definition fresh_ptr :: "heap_t \<Rightarrow> ptr \<times> heap_t" where
  "fresh_ptr h = (next_ptr h, h\<lparr>next_ptr := Suc (next_ptr h)\<rparr>)"


section \<open>The call-dispatch layer: function_shipper_handler.c\<close>

subsection \<open>Data\<close>

type_synonym fs_id_t = "32 word"
type_synonym na_tag_t = nat

datatype ret = S_SUCCESS | S_FAIL

text \<open>
  \<open>fs_proc_info_t\<close>: the executor is a function pointer (its code address; what calling
  it does is a parameter of \<open>fs_handler_receive\<close>), the decoder maps the bytes left in
  the decode context to its return code and the decoded struct, the encoder maps the
  room of the encode context and the output struct to its return code and the bytes it
  wrote.
\<close>

record fs_proc_info =
  fs_routine :: nat
  dec_routine :: "bytes \<Rightarrow> int \<times> bytes"
  enc_routine :: "size_t \<Rightarrow> bytes \<Rightarrow> int \<times> bytes"

text \<open>\<open>fs_priv_handle_t\<close>; the field \<open>id\<close> is written \<open>id_h\<close>.\<close>

record fs_priv_handle =
  id_h :: fs_id_t
  addr :: "ptr option"
  tag :: na_tag_t
  dec_proc :: "ptr option"
  recv_buf :: "ptr option"
  in_struct :: "ptr option"

type_synonym func_map_t = "fs_id_t \<rightharpoonup> fs_proc_info"

datatype event =
    ErrorLog string
  | NaFinalize ptr
  | NaRecvUnexpected ptr nat
  | NaSend ptr nat bytes "ptr option" na_tag_t
  | NaWait
  | NaAddrFree ptr

text \<open>
  The state the module works on: the heap, the contents of the live call handles, the
  live codec contexts (\<open>fs_proc_t\<close>) with the bytes left in them, the live peer
  addresses, the two statics of the module, and the trace of what it logged and asked of
  the network layer.
\<close>

record hstate =
  heap :: heap_t
  handles :: "ptr \<rightharpoonup> fs_priv_handle"
  procs :: "ptr \<rightharpoonup> bytes"
  addrs :: "ptr set"
  handler_func_map :: "func_map_t option"
  handler_network_class :: "ptr option"
  trace :: "event list"

text \<open>
  What the headers and collaborators that are not part of the two source files fix:
  the transport's bound on unexpected messages, the sizes of the legacy prefixes, the
  bytes of the legacy status prefix, \<open>sizeof(fs_priv_handle_t)\<close>, the hash of a
  function name and the decoding of a 4-byte id.
\<close>

record env =
  na_get_unexpected_size :: size_t
  iofsl_compat_get_size_id :: size_t
  iofsl_compat_get_size_status :: size_t
  status_prefix :: bytes
  sizeof_priv_handle :: nat
  fs_proc_string_hash :: "string \<Rightarrow> fs_id_t"
  fs_proc_uint32_t :: "bytes \<Rightarrow> fs_id_t"

subsection \<open>Collaborators\<close>

definition S_ERROR_DEFAULT :: "string \<Rightarrow> hstate \<Rightarrow> hstate" where
  "S_ERROR_DEFAULT msg w = w\<lparr>trace := trace w @ [ErrorLog msg]\<rparr>"

text \<open>
  Modelled from the spec: \<open>func_map_new\<close>, \<open>func_map_insert\<close> and \<open>func_map_lookup\<close>
  (function_map.h and its implementation are not among the source files). The registry is
  a map from the 32-bit id to the triple; \<open>lookup(id)\<close> returns the triple or "not
  found"; an insertion under an id that is already present silently overwrites (section 3:
  "the source silently overwrites"). What they do on a \<open>NULL\<close> map is not said: it is
  \<open>Undefined\<close> here.
\<close>

definition func_map_new :: func_map_t where
  "func_map_new = Map.empty"

definition func_map_insert ::
  "func_map_t option \<Rightarrow> fs_id_t \<Rightarrow> fs_proc_info \<Rightarrow> func_map_t option outcome" where
  "func_map_insert m k v =
     (case m of None \<Rightarrow> Undefined | Some f \<Rightarrow> Done (Some (f(k \<mapsto> v))))"

definition func_map_lookup ::
  "func_map_t option \<Rightarrow> fs_id_t \<Rightarrow> fs_proc_info option outcome" where
  "func_map_lookup m k = (case m of None \<Rightarrow> Undefined | Some f \<Rightarrow> Done (f k))"

text \<open>
  \<open>fs_proc_create\<close> makes a codec context over a buffer region, \<open>fs_proc_free\<close>
  releases it; releasing a context that is not live is undefined.
\<close>

definition fs_proc_create :: "bytes \<Rightarrow> hstate \<Rightarrow> ptr \<times> hstate" where
  "fs_proc_create bs w =
     (let (p, h) = fresh_ptr (heap w)
      in (p, w\<lparr>heap := h, procs := (procs w)(p \<mapsto> bs)\<rparr>))"

definition fs_proc_free :: "ptr \<Rightarrow> hstate \<Rightarrow> hstate outcome" where
  "fs_proc_free p w =
     (case procs w p of
        None \<Rightarrow> Undefined
      | Some bs \<Rightarrow> Done (w\<lparr>procs := (procs w)(p := None)\<rparr>))"

definition free_w :: "ptr option \<Rightarrow> hstate \<Rightarrow> hstate outcome" where
  "free_w p w = obind (free p (heap w)) (\<lambda>h. Done (w\<lparr>heap := h\<rparr>))"

definition malloc_w :: "nat \<Rightarrow> hstate \<Rightarrow> ptr option \<times> hstate" where
  "malloc_w n w = (let (p, h) = malloc n (heap w) in (p, w\<lparr>heap := h\<rparr>))"

subsection \<open>fs_handler_init, fs_handler_finalize, fs_handler_register\<close>

definition fs_handler_init :: "ptr option \<Rightarrow> hstate \<Rightarrow> ret \<times> hstate" where
  "fs_handler_init network_class w =
     (if handler_network_class w \<noteq> None
      then (S_FAIL, S_ERROR_DEFAULT ''Already initialized'' w)
      else (S_SUCCESS,
            w\<lparr>handler_network_class := network_class,
              handler_func_map := Some func_map_new\<rparr>))"

definition fs_handler_finalize :: "hstate \<Rightarrow> ret \<times> hstate" where
  "fs_handler_finalize w =
     (case handler_network_class w of
        None \<Rightarrow> (S_FAIL, S_ERROR_DEFAULT ''Already finalized'' w)
      | Some nc \<Rightarrow>
          (S_SUCCESS,
           w\<lparr>trace := trace w @ [NaFinalize nc],
             handler_func_map := None,
             handler_network_class := None\<rparr>))"

text \<open>
  \<open>fs_handler_register\<close> returns \<open>void\<close>: the model returns the new state only. The
  two \<open>malloc\<close> results are written through unchecked (the sizes are those of
  \<open>fs_id_t\<close> and of three function pointers).
\<close>

definition fs_handler_register ::
  "env \<Rightarrow> string \<Rightarrow> nat \<Rightarrow> (bytes \<Rightarrow> int \<times> bytes) \<Rightarrow> (size_t \<Rightarrow> bytes \<Rightarrow> int \<times> bytes)
     \<Rightarrow> hstate \<Rightarrow> hstate outcome" where
  "fs_handler_register e func_name fs_r dec_r enc_r w =
     (let (idp, w1) = malloc_w 4 w
      in case idp of
           None \<Rightarrow> Undefined
         | Some _ \<Rightarrow>
             (let k = fs_proc_string_hash e func_name;
                  (pip, w2) = malloc_w 24 w1
              in case pip of
                   None \<Rightarrow> Undefined
                 | Some _ \<Rightarrow>
                     obind (func_map_insert (handler_func_map w2) k
                              \<lparr>fs_routine = fs_r, dec_routine = dec_r, enc_routine = enc_r\<rparr>)
                       (\<lambda>m. Done (w2\<lparr>handler_func_map := m\<rparr>))))"

subsection \<open>fs_handler_get_input\<close>

text \<open>
  The caller's \<open>in_struct\<close> is an out-parameter: the second component of the result is
  what the decoder stored into it, \<open>None\<close> when nothing was stored.
\<close>

definition fs_handler_get_input ::
  "ptr \<Rightarrow> hstate \<Rightarrow> (ret \<times> bytes option \<times> hstate) outcome" where
  "fs_handler_get_input handle w =
     (case handles w handle of
        None \<Rightarrow> Undefined
      | Some ph \<Rightarrow>
          (case (recv_buf ph, dec_proc ph) of
             (Some rb, Some dp) \<Rightarrow>
               obind (func_map_lookup (handler_func_map w) (id_h ph)) (\<lambda>proc_info.
                 case proc_info of
                   None \<Rightarrow> Done (S_FAIL, None, S_ERROR_DEFAULT ''func_map_lookup failed'' w)
                 | Some pi \<Rightarrow>
                     (case procs w dp of
                        None \<Rightarrow> Undefined
                      | Some bs \<Rightarrow>
                          obind (fs_proc_free dp w) (\<lambda>w1.
                          obind (free_w (Some rb)
                                   (w1\<lparr>handles := (handles w1)(handle \<mapsto> ph\<lparr>dec_proc := None\<rparr>)\<rparr>))
                            (\<lambda>w2.
                          Done (S_SUCCESS, Some (snd (dec_routine pi bs)),
                                w2\<lparr>handles := (handles w2)
                                      (handle \<mapsto> ph\<lparr>dec_proc := None, recv_buf := None\<rparr>)\<rparr>)))))
           | _ \<Rightarrow> Done (S_SUCCESS, None, w)))"

subsection \<open>fs_handler_receive\<close>

text \<open>
  Modelled from the spec: \<open>na_recv_unexpected\<close> (the transport is a collaborator). It
  fills the buffer with the next unexpected message, at most the announced number of
  bytes, reports the delivered length, and hands out the peer's address as a new object
  that the receiver owns; the tag is the sender's.
\<close>

definition na_recv_unexpected ::
  "ptr \<Rightarrow> size_t \<Rightarrow> bytes \<Rightarrow> hstate \<Rightarrow> bytes \<times> ptr \<times> hstate" where
  "na_recv_unexpected buf len msg w =
     (let delivered = take (unat len) msg;
          (peer, h) = fresh_ptr (heap w)
      in (delivered, peer,
          w\<lparr>heap := h, addrs := insert peer (addrs w),
            trace := trace w @ [NaRecvUnexpected buf (length delivered)]\<rparr>))"

text \<open>
  Modelled from the spec: \<open>na_addr_free\<close> releases a peer address; on an address that
  is not live (or \<open>NULL\<close>) it is undefined.
\<close>

definition na_addr_free :: "ptr option \<Rightarrow> hstate \<Rightarrow> hstate outcome" where
  "na_addr_free a w =
     (case a of
        None \<Rightarrow> Undefined
      | Some p \<Rightarrow>
          (if p \<in> addrs w
           then Done (w\<lparr>addrs := addrs w - {p}, trace := trace w @ [NaAddrFree p]\<rparr>)
           else Undefined))"

definition set_handle :: "ptr \<Rightarrow> fs_priv_handle \<Rightarrow> hstate \<Rightarrow> hstate" where
  "set_handle p ph w = w\<lparr>handles := (handles w)(p \<mapsto> ph)\<rparr>"

text \<open>
  \<open>call f handle\<close> is what calling the function pointer \<open>f\<close> on the handle does (user
  code). \<open>incoming\<close> is the next unexpected message on the wire and its tag. Neither
  \<open>malloc\<close> is checked by the code: a \<open>NULL\<close> result is written through. The
  subtraction of the prefix size wraps, as \<open>na_size_t\<close> does, and the delivered
  length is not checked: when the message is shorter than the legacy prefix, or fewer
  than 4 bytes follow the prefix, the decoding of the id reads bytes of the buffer that
  were never received, which is undefined.
\<close>

definition fs_handler_receive ::
  "env \<Rightarrow> (nat \<Rightarrow> ptr \<Rightarrow> hstate \<Rightarrow> hstate outcome) \<Rightarrow> bytes \<times> na_tag_t \<Rightarrow> hstate
     \<Rightarrow> (ret \<times> hstate) outcome" where
  "fs_handler_receive e call incoming w =
     (let (hp, w1) = malloc_w (sizeof_priv_handle e) w
      in case hp of
           None \<Rightarrow> Undefined
         | Some priv_handle \<Rightarrow>
             (let ph0 = \<lparr>id_h = 0, addr = None, tag = 0, dec_proc = None,
                         recv_buf = None, in_struct = None\<rparr>;
                  recv_buf_len = na_get_unexpected_size e;
                  (rb, w2) = malloc_w (unat recv_buf_len) (set_handle priv_handle ph0 w1)
              in case rb of
                   None \<Rightarrow> Undefined
                 | Some buf \<Rightarrow>
                     (let (delivered, peer, w3) =
                            na_recv_unexpected buf recv_buf_len (fst incoming) w2;
                          ph1 = ph0\<lparr>recv_buf := Some buf, addr := Some peer,
                                    tag := snd incoming\<rparr>;
                          recv_buf_len' = (of_nat (length delivered) :: size_t);
                          dec_buf = drop (unat (iofsl_compat_get_size_id e)) delivered;
                          dec_buf_len = recv_buf_len' - iofsl_compat_get_size_id e;
                          (dp, w4) = fs_proc_create dec_buf (set_handle priv_handle ph1 w3);
                          ph2 = ph1\<lparr>dec_proc := Some dp\<rparr>;
                          opid = fs_proc_uint32_t e (take 4 dec_buf);
                          ph3 = ph2\<lparr>id_h := opid\<rparr>;
                          w5 = set_handle priv_handle ph3
                                 (w4\<lparr>procs := (procs w4)(dp \<mapsto> drop 4 dec_buf)\<rparr>)
                      in if recv_buf_len' < iofsl_compat_get_size_id e \<or> dec_buf_len < 4
                         then Undefined
                         else
                           obind (func_map_lookup (handler_func_map w5) opid) (\<lambda>proc_info.
                             case proc_info of
                               None \<Rightarrow>
                                 Done (S_FAIL, S_ERROR_DEFAULT ''func_map_lookup failed'' w5)
                             | Some pi \<Rightarrow>
                                 obind (call (fs_routine pi) priv_handle w5)
                                   (\<lambda>w6. Done (S_SUCCESS, w6))))))"

subsection \<open>fs_handler_complete\<close>

text \<open>
  The send buffer has the size of an unexpected message; the encoder's size is not asked
  for (that code is commented out) and its return code is ignored. The whole buffer,
  \<open>send_buf_len\<close> bytes, is sent: the event records the status prefix and what the
  encoder wrote into it.
\<close>

definition fs_handler_complete ::
  "env \<Rightarrow> ptr \<Rightarrow> bytes \<Rightarrow> hstate \<Rightarrow> (ret \<times> hstate) outcome" where
  "fs_handler_complete e handle out_struct w =
     (let send_buf_len = na_get_unexpected_size e
      in case handles w handle of
           None \<Rightarrow> Undefined
         | Some ph \<Rightarrow>
             obind (func_map_lookup (handler_func_map w) (id_h ph)) (\<lambda>proc_info.
               case proc_info of
                 None \<Rightarrow> Done (S_FAIL, S_ERROR_DEFAULT ''func_map_lookup failed'' w)
               | Some pi \<Rightarrow>
                   (let (sb, w1) = malloc_w (unat send_buf_len) w
                    in case sb of
                         None \<Rightarrow>
                           Done (S_FAIL,
                                 S_ERROR_DEFAULT ''send buffer allocation failed.\<newline>'' w1)
                       | Some send_buf \<Rightarrow>
                           (let enc_buf_len = send_buf_len - iofsl_compat_get_size_status e;
                                (enc_proc, w2) = fs_proc_create [] w1;
                                written = snd (enc_routine pi enc_buf_len out_struct);
                                w3 = w2\<lparr>trace := trace w2 @
                                       [NaSend send_buf (unat send_buf_len)
                                          (status_prefix e @ written) (addr ph) (tag ph),
                                        NaWait]\<rparr>
                            in obind (fs_proc_free enc_proc w3) (\<lambda>w4.
                               obind (free_w (Some send_buf) w4) (\<lambda>w5.
                               obind (na_addr_free (addr ph) w5) (\<lambda>w6.
                               obind (free_w (in_struct ph)
                                        (set_handle handle (ph\<lparr>addr := None\<rparr>) w6)) (\<lambda>w7.
                               obind (free_w (Some handle)
                                        (set_handle handle
                                           (ph\<lparr>addr := None, in_struct := None\<rparr>) w7)) (\<lambda>w8.
                               Done (S_SUCCESS,
                                     w8\<lparr>handles := (handles w8)(handle := None)\<rparr>))))))))))"


section \<open>The wireup responder and its receive pool: replies.c\<close>

subsection \<open>Data\<close>

type_synonym ucp_tag_t = "64 word"

text \<open>
  \<open>ucs_status_t\<close>: the two values the code compares with, and every other code.
\<close>

datatype ucs_status_t = UCS_OK | UCS_ERR_MESSAGE_TRUNCATED | UCS_OTHER int

datatype wireup_op_t = OP_REQ | OP_ACK | OP_OTHER nat

text \<open>
  \<open>wireup_msg_t\<close> (wireup.h): the struct the code reads through \<open>msg = buf\<close>. Its
  fixed part is \<open>hdrlen = offsetof(wireup_msg_t, addr[0])\<close> bytes long; the header is not
  among the source files, so \<open>hdrlen\<close> and \<open>sizeof(wireup_msg_t)\<close> are parameters.
\<close>

record wireup_msg_t =
  op :: wireup_op_t
  sender_id :: "64 word"
  addrlen :: size_t
  addr_w :: bytes

text \<open>
  \<open>rxdesc_t\<close> (rxpool.h): the fields the code reads and writes, and whether the
  posted receive of the slot has completed.
\<close>

record rxdesc_t =
  buf :: ptr
  buflen :: size_t
  rxlen :: size_t
  status :: ucs_status_t
  sender_tag :: ucp_tag_t
  completed :: bool

record rxpool_t =
  slots :: "rxdesc_t list"
  pool_tag :: ucp_tag_t

datatype sevent =
    Warnx string
  | Printf string
  | PrintfStatus string ucs_status_t
  | UcpEpCreate bytes
  | UcpTagSend ptr wireup_msg_t ucp_tag_t
  | UcpWorkerProgress
  | UcpEpClose ptr
  | UcpTagRecv nat ptr size_t ucp_tag_t
  | UcpCancel nat

text \<open>
  The state of the server: the heap, the struct each receive buffer holds, and the trace
  of what was printed and asked of the transport.
\<close>

record sstate =
  sheap :: heap_t
  mem :: "ptr \<rightharpoonup> wireup_msg_t"
  out :: "sevent list"

text \<open>
  What the transport answers during one \<open>process_rx_msg\<close>: the status of
  \<open>ucp_ep_create\<close>; the request \<open>ucp_tag_send_nbx\<close> returns (an error, done at once, or
  a pending request with the number of \<open>ucp_worker_progress\<close> calls after which the
  callback has run, \<open>None\<close> when it never runs, and the status it reports); the request
  \<open>ucp_ep_close_nb\<close> returns, likewise.
\<close>

datatype request_t =
    ReqOk
  | ReqErr ucs_status_t
  | ReqPtr "nat option" ucs_status_t

record transport =
  ep_create_status :: ucs_status_t
  send_request :: request_t
  close_request :: request_t

text \<open>A request completes when it is not a pending request whose callback never runs.\<close>

definition request_completes :: "request_t \<Rightarrow> bool" where
  "request_completes r =
     (case r of ReqOk \<Rightarrow> True | ReqErr st \<Rightarrow> True | ReqPtr k st \<Rightarrow> k \<noteq> None)"

subsection \<open>Collaborators\<close>

definition emit :: "sevent \<Rightarrow> sstate \<Rightarrow> sstate" where
  "emit ev w = w\<lparr>out := out w @ [ev]\<rparr>"

definition SIZE_MAX :: size_t where
  "SIZE_MAX = - 1"

text \<open>
  Modelled from the spec: \<open>twice_or_max\<close> (util.h is not among the source files):
  "doubling the previous buffer size, saturating at the platform's maximum size rather
  than overflowing".
\<close>

definition twice_or_max :: "size_t \<Rightarrow> size_t" where
  "twice_or_max x = (if SIZE_MAX div 2 < x then SIZE_MAX else 2 * x)"

text \<open>
  Modelled from the spec: \<open>rxpool_next\<close> (rxpool.c is not among the source files), "a
  nonblocking poll: it returns the first slot whose posted receive has completed, or
  none". The result is the position of the slot.
\<close>

fun first_completed :: "rxdesc_t list \<Rightarrow> nat \<Rightarrow> nat option" where
  "first_completed [] i = None"
| "first_completed (d # ds) i = (if completed d then Some i else first_completed ds (Suc i))"

definition rxpool_next :: "rxpool_t \<Rightarrow> nat option" where
  "rxpool_next rxpool = first_completed (slots rxpool) 0"

text \<open>
  Modelled from the spec: \<open>rxdesc_setup\<close>, which "re-arms a slot with a (possibly new)
  buffer and re-posts the receive", on the pool's one match tag.
\<close>

definition rxdesc_setup ::
  "rxpool_t \<Rightarrow> ptr \<Rightarrow> size_t \<Rightarrow> nat \<Rightarrow> sstate \<Rightarrow> rxpool_t \<times> sstate" where
  "rxdesc_setup rxpool b len i w =
     (rxpool\<lparr>slots := (slots rxpool)
                [i := (slots rxpool ! i)\<lparr>buf := b, buflen := len, completed := False\<rparr>]\<rparr>,
      emit (UcpTagRecv i b len (pool_tag rxpool)) w)"

text \<open>
  The wait loops \<open>while (!completed) ucp_worker_progress(worker)\<close>: \<open>n\<close> calls when the
  completion arrives after \<open>n\<close> of them, no return when it never arrives.
\<close>

fun progress_n :: "nat \<Rightarrow> sstate \<Rightarrow> sstate" where
  "progress_n 0 w = w"
| "progress_n (Suc n) w = progress_n n (emit UcpWorkerProgress w)"

definition wait_completed :: "nat option \<Rightarrow> sstate \<Rightarrow> sstate outcome" where
  "wait_completed k w = (case k of None \<Rightarrow> Diverged | Some n \<Rightarrow> Done (progress_n n w))"

subsection \<open>ep_close\<close>

definition ep_close :: "transport \<Rightarrow> ptr \<Rightarrow> sstate \<Rightarrow> sstate outcome" where
  "ep_close t ep w =
     (let w1 = emit (UcpEpClose ep) w
      in case close_request t of
           ReqOk \<Rightarrow> Done w1
         | ReqErr st \<Rightarrow> Done (emit (Warnx ''%s: ucp_ep_close_nb: %s'') w1)
         | ReqPtr k st \<Rightarrow> wait_completed k w1)"

subsection \<open>process_rx_msg\<close>

text \<open>
  The comparisons and the sum \<open>hdrlen + addrlen\<close> are those of \<open>size_t\<close>. After a
  failed \<open>ucp_ep_create\<close> the code warns and goes on to send on \<open>reply_ep\<close>, which was
  never written: undefined. The reply is the \<open>OP_ACK\<close> message with no address.
\<close>

definition reply_msg :: wireup_msg_t where
  "reply_msg = \<lparr>op = OP_ACK, sender_id = 0, addrlen = 0, addr_w = []\<rparr>"

definition process_rx_msg ::
  "transport \<Rightarrow> size_t \<Rightarrow> ucp_tag_t \<Rightarrow> ptr \<Rightarrow> size_t \<Rightarrow> sstate \<Rightarrow> sstate outcome" where
  "process_rx_msg t hdrlen tg b len w =
     (if len < hdrlen
      then Done (emit (Warnx ''%s: dropping %zu-byte message, shorter than header\<newline>'') w)
      else
        (case mem w b of
           None \<Rightarrow> Undefined
         | Some msg \<Rightarrow>
             (if op msg \<noteq> OP_REQ
              then Done (emit (Warnx ''%s: received unexpected %s-type op\<newline>'') w)
              else
                (let w1 = (if len < hdrlen + addrlen msg
                           then emit (Warnx ''%s: dropping %zu-byte message, address truncated\<newline>'') w
                           else w);
                     (reply_ep, h) = fresh_ptr (sheap w1);
                     w2 = emit (UcpEpCreate (addr_w msg)) (w1\<lparr>sheap := h\<rparr>)
                 in if ep_create_status t \<noteq> UCS_OK
                    then Undefined
                    else
                      (let w3 = emit (UcpTagSend reply_ep reply_msg tg) w2
                       in obind
                            (case send_request t of
                               ReqErr st \<Rightarrow> Done (emit (Warnx ''%s: ucp_tag_send_nbx: %s'') w3)
                             | ReqPtr k st \<Rightarrow>
                                 obind (wait_completed k w3) (\<lambda>w4.
                                   Done (emit (Printf ''send succeeded, exiting.\<newline>'')
                                     (if st \<noteq> UCS_OK
                                      then emit (PrintfStatus ''send error, %s, exiting.\<newline>'' st) w4
                                      else w4)))
                             | ReqOk \<Rightarrow>
                                 Done (emit (Printf ''send succeeded immediately, exiting.\<newline>'') w3))
                            (ep_close t reply_ep))))))"

subsection \<open>run_server_once\<close>

text \<open>
  The result is the \<open>bool\<close> the function returns, with the pool and the state it
  leaves. A failed \<open>malloc\<close> ends the process (\<open>err(EXIT_FAILURE, ...)\<close>).
\<close>

definition run_server_once ::
  "transport \<Rightarrow> size_t \<Rightarrow> rxpool_t \<Rightarrow> sstate \<Rightarrow> (bool \<times> rxpool_t \<times> sstate) outcome" where
  "run_server_once t hdrlen rxpool w =
     (case rxpool_next rxpool of
        None \<Rightarrow> Done (True, rxpool, w)
      | Some i \<Rightarrow>
          (let rdesc = slots rxpool ! i
           in if status rdesc = UCS_OK
              then
                obind (process_rx_msg t hdrlen (sender_tag rdesc) (buf rdesc) (rxlen rdesc)
                         (emit (Printf ''received %zu-byte message tagged %lu, processing...\<newline>'') w))
                  (\<lambda>w1. let (rxpool', w2) = rxdesc_setup rxpool (buf rdesc) (buflen rdesc) i w1
                         in Done (True, rxpool', w2))
              else if status rdesc = UCS_ERR_MESSAGE_TRUNCATED
              then
                (let w1 = emit (Printf ''%s: truncated desc %p buf %p buflen %zu\<newline>'') w;
                     nbuflen = twice_or_max (buflen rdesc) - hdrlen;
                     w2 = emit (Printf ''increasing buffer length %zu -> %zu bytes.\<newline>'') w1;
                     (nb, h) = malloc (unat nbuflen) (sheap w2)
                 in case nb of
                      None \<Rightarrow> Exited
                    | Some nbuf \<Rightarrow>
                        obind (free (Some (buf rdesc)) h) (\<lambda>h'.
                          let rxpool1 = rxpool\<lparr>slots := (slots rxpool)
                                          [i := rdesc\<lparr>buflen := nbuflen, buf := nbuf\<rparr>]\<rparr>;
                              (rxpool', w3) = rxdesc_setup rxpool1 nbuf nbuflen i
                                                (w2\<lparr>sheap := h', mem := (mem w2)(buf rdesc := None)\<rparr>)
                          in Done (True, rxpool', w3)))
              else
                Done (False, rxpool,
                      emit (PrintfStatus ''receive error, %s, exiting.\<newline>'' (status rdesc)) w)))"

subsection \<open>run_server\<close>

text \<open>
  One \<open>ucp_worker_progress\<close> of the serving loop completes posted receives: a
  completion names the slot, the status, the delivered length, the sender's tag and the
  struct left in the buffer; it takes effect on an armed slot only. (\<open>rxpool_next\<close> is
  called at the start of \<open>run_server_once\<close> only, so completions that arrive during the
  wait loops of \<open>process_rx_msg\<close> are observed at the same point as these.)
\<close>

record completion =
  c_slot :: nat
  c_status :: ucs_status_t
  c_rxlen :: size_t
  c_tag :: ucp_tag_t
  c_msg :: wireup_msg_t

definition complete_slot :: "completion \<Rightarrow> rxpool_t \<times> sstate \<Rightarrow> rxpool_t \<times> sstate" where
  "complete_slot c pw =
     (let (rxpool, w) = pw
      in if c_slot c < length (slots rxpool) \<and> \<not> completed (slots rxpool ! c_slot c)
         then (rxpool\<lparr>slots := (slots rxpool)
                         [c_slot c := (slots rxpool ! c_slot c)
                            \<lparr>rxlen := c_rxlen c, status := c_status c,
                             sender_tag := c_tag c, completed := True\<rparr>]\<rparr>,
               w\<lparr>mem := (mem w)(buf (slots rxpool ! c_slot c) \<mapsto> c_msg c)\<rparr>)
         else (rxpool, w))"

definition ucp_worker_progress :: "completion list \<Rightarrow> rxpool_t \<Rightarrow> sstate \<Rightarrow> rxpool_t \<times> sstate" where
  "ucp_worker_progress cs rxpool w = fold complete_slot cs (rxpool, emit UcpWorkerProgress w)"

text \<open>
  The loop \<open>while (run_server_once(&rxpool)) ucp_worker_progress(worker);\<close> against a
  schedule: for each turn, the transport's answers to that turn's \<open>process_rx_msg\<close> and
  the completions of the \<open>ucp_worker_progress\<close> that follows. \<open>Stopped\<close>: the loop was
  left (\<open>run_server_once\<close> returned \<open>false\<close>); \<open>Serving\<close>: the schedule ended with the
  loop still running.
\<close>

datatype serving = Stopped rxpool_t sstate | Serving rxpool_t sstate

fun serve ::
  "size_t \<Rightarrow> (transport \<times> completion list) list \<Rightarrow> rxpool_t \<Rightarrow> sstate \<Rightarrow> serving outcome" where
  "serve hdrlen [] rxpool w = Done (Serving rxpool w)"
| "serve hdrlen ((t, cs) # sched) rxpool w =
     obind (run_server_once t hdrlen rxpool w) (\<lambda>(continue, rxpool', w').
       if continue
       then (let (rxpool'', w'') = ucp_worker_progress cs rxpool' w'
             in serve hdrlen sched rxpool'' w'')
       else Done (Stopped rxpool' w'))"

text \<open>
  Modelled from the spec: \<open>rxpool_init\<close> "allocates \<open>windowSize\<close> buffers of
  \<open>initialSize\<close> bytes and posts each as a nonblocking exact-match tagged receive", and
  \<open>rxpool_destroy\<close> "cancels all outstanding posted receives and frees all slot
  buffers" (rxpool.c is not among the source files). An allocation failure is fatal (section 7).
\<close>

fun rxpool_fill :: "nat \<Rightarrow> size_t \<Rightarrow> rxpool_t \<Rightarrow> sstate \<Rightarrow> (rxpool_t \<times> sstate) outcome" where
  "rxpool_fill 0 len rxpool w = Done (rxpool, w)"
| "rxpool_fill (Suc n) len rxpool w =
     (let (b, h) = malloc (unat len) (sheap w)
      in case b of
           None \<Rightarrow> Exited
         | Some p \<Rightarrow>
             rxpool_fill n len
               (rxpool\<lparr>slots := slots rxpool @
                   [\<lparr>buf = p, buflen = len, rxlen = 0, status = UCS_OK, sender_tag = 0,
                     completed = False\<rparr>]\<rparr>)
               (emit (UcpTagRecv (length (slots rxpool)) p len (pool_tag rxpool))
                  (w\<lparr>sheap := h\<rparr>)))"

definition rxpool_init :: "ucp_tag_t \<Rightarrow> size_t \<Rightarrow> nat \<Rightarrow> sstate \<Rightarrow> (rxpool_t \<times> sstate) outcome" where
  "rxpool_init tg len n w = rxpool_fill n len \<lparr>slots = [], pool_tag = tg\<rparr> w"

fun rxpool_free :: "rxdesc_t list \<Rightarrow> nat \<Rightarrow> sstate \<Rightarrow> sstate outcome" where
  "rxpool_free [] i w = Done w"
| "rxpool_free (d # ds) i w =
     obind (free (Some (buf d)) (sheap w)) (\<lambda>h.
       rxpool_free ds (Suc i)
         ((if completed d then (\<lambda>x. x) else emit (UcpCancel i))
            (w\<lparr>sheap := h, mem := (mem w)(buf d := None)\<rparr>)))"

definition rxpool_destroy :: "rxpool_t \<Rightarrow> sstate \<Rightarrow> sstate outcome" where
  "rxpool_destroy rxpool w = rxpool_free (slots rxpool) 0 w"

definition START_WIREUP_TAG :: ucp_tag_t where
  "START_WIREUP_TAG = 17"

text \<open>
  \<open>run_server\<close>: the pool of 3 slots of \<open>sizeof(wireup_msg_t) + 93\<close> bytes on the
  wireup tag, the loop, and the pool's destruction once the loop is left. \<open>None\<close>: the
  loop was still running at the end of the schedule.
\<close>

definition run_server ::
  "size_t \<Rightarrow> size_t \<Rightarrow> (transport \<times> completion list) list \<Rightarrow> sstate \<Rightarrow> sstate option outcome" where
  "run_server sizeof_wireup_msg hdrlen sched w =
     obind (rxpool_init START_WIREUP_TAG (sizeof_wireup_msg + 93) 3 w) (\<lambda>(rxpool, w1).
       obind (serve hdrlen sched rxpool w1) (\<lambda>r.
         case r of
           Stopped rxpool' w2 \<Rightarrow> obind (rxpool_destroy rxpool' w2) (\<lambda>w3. Done (Some w3))
         | Serving rxpool' w2 \<Rightarrow> Done None))"

section \<open>Concrete inputs\<close>

text \<open>
  A small instance of the collaborators: unexpected messages of at most 16 bytes,
  4-byte legacy prefixes, a hash that is the length of the name, big-endian ids; a
  decoder that hands the bytes through, an encoder that writes its input when it fits
  the room and reports failure otherwise, and an executor that does nothing.
\<close>

definition env0 :: env where
  "env0 = \<lparr>na_get_unexpected_size = 16, iofsl_compat_get_size_id = 4,
            iofsl_compat_get_size_status = 4, status_prefix = [0, 0, 0, 0],
            sizeof_priv_handle = 48,
            fs_proc_string_hash = (\<lambda>s. of_nat (length s)),
            fs_proc_uint32_t = (\<lambda>bs. of_nat (foldl (\<lambda>a b. 256 * a + unat b) 0 bs))\<rparr>"

definition dec0 :: "bytes \<Rightarrow> int \<times> bytes" where
  "dec0 bs = (0, bs)"

definition enc0 :: "size_t \<Rightarrow> bytes \<Rightarrow> int \<times> bytes" where
  "enc0 room out_struct =
     (if length out_struct \<le> unat room then (0, out_struct)
      else (- 1, take (unat room) out_struct))"

definition call0 :: "nat \<Rightarrow> ptr \<Rightarrow> hstate \<Rightarrow> hstate outcome" where
  "call0 f h w = Done w"

definition foo_info :: "nat \<Rightarrow> fs_proc_info" where
  "foo_info f = \<lparr>fs_routine = f, dec_routine = dec0, enc_routine = enc0\<rparr>"

text \<open>
  States of the handler module: before \<open>fs_handler_init\<close>; initialised with an empty
  registry; after registering \<open>foo\<close>; after \<open>fs_handler_receive\<close> has built the handle
  of a call of \<open>foo\<close>; after a call with the unregistered id 7 was dropped; after
  \<open>fs_handler_get_input\<close> on the handle; after \<open>fs_handler_complete\<close> on the handle.
\<close>

definition w0 :: hstate where
  "w0 = \<lparr>heap = \<lparr>blocks = Map.empty, next_ptr = 10, avail = 4096\<rparr>,
          handles = Map.empty, procs = Map.empty, addrs = {},
          handler_func_map = None, handler_network_class = None, trace = []\<rparr>"

definition w_srv :: hstate where
  "w_srv = w0\<lparr>handler_func_map := Some func_map_new, handler_network_class := Some 100\<rparr>"

definition w_reg :: "nat \<Rightarrow> hstate" where
  "w_reg f = \<lparr>heap = \<lparr>blocks = [10 \<mapsto> 4, 11 \<mapsto> 24], next_ptr = 12, avail = 4068\<rparr>,
          handles = Map.empty, procs = Map.empty, addrs = {},
          handler_func_map = Some [3 \<mapsto> foo_info f], handler_network_class = Some 100,
          trace = []\<rparr>"

definition w_call :: hstate where
  "w_call = \<lparr>heap = \<lparr>blocks = [10 \<mapsto> 4, 11 \<mapsto> 24, 12 \<mapsto> 48, 13 \<mapsto> 16],
                      next_ptr = 16, avail = 4004\<rparr>,
          handles = [12 \<mapsto> \<lparr>id_h = 3, addr = Some 14, tag = 9, dec_proc = Some 15,
                               recv_buf = Some 13, in_struct = None\<rparr>],
          procs = [15 \<mapsto> [1, 2, 3]], addrs = {14},
          handler_func_map = Some [3 \<mapsto> foo_info 1], handler_network_class = Some 100,
          trace = [NaRecvUnexpected 13 11]\<rparr>"

definition w_dropped :: hstate where
  "w_dropped = \<lparr>heap = \<lparr>blocks = [10 \<mapsto> 48, 11 \<mapsto> 16], next_ptr = 14, avail = 4032\<rparr>,
          handles = [10 \<mapsto> \<lparr>id_h = 7, addr = Some 12, tag = 9, dec_proc = Some 13,
                               recv_buf = Some 11, in_struct = None\<rparr>],
          procs = [13 \<mapsto> [1, 2, 3]], addrs = {12},
          handler_func_map = Some func_map_new, handler_network_class = Some 100,
          trace = [NaRecvUnexpected 11 11, ErrorLog ''func_map_lookup failed'']\<rparr>"

definition w_got :: hstate where
  "w_got = \<lparr>heap = \<lparr>blocks = [10 \<mapsto> 4, 11 \<mapsto> 24, 12 \<mapsto> 48], next_ptr = 16, avail = 4020\<rparr>,
          handles = [12 \<mapsto> \<lparr>id_h = 3, addr = Some 14, tag = 9, dec_proc = None,
                               recv_buf = None, in_struct = None\<rparr>],
          procs = Map.empty, addrs = {14},
          handler_func_map = Some [3 \<mapsto> foo_info 1], handler_network_class = Some 100,
          trace = [NaRecvUnexpected 13 11]\<rparr>"

text \<open>
  The state \<open>w_call\<close> with only 15 bytes left to allocate; the state after
  \<open>fs_handler_init(NULL)\<close> and the registration of \<open>foo\<close>.
\<close>

definition w_call_low :: hstate where
  "w_call_low = w_call\<lparr>heap := \<lparr>blocks = [10 \<mapsto> 4, 11 \<mapsto> 24, 12 \<mapsto> 48, 13 \<mapsto> 16],
                                  next_ptr = 16, avail = 15\<rparr>\<rparr>"

definition w_null_reg :: hstate where
  "w_null_reg = (w_reg 1)\<lparr>handler_network_class := None\<rparr>"

definition w_done :: "bytes \<Rightarrow> hstate" where
  "w_done sent = \<lparr>heap = \<lparr>blocks = [10 \<mapsto> 4, 11 \<mapsto> 24, 13 \<mapsto> 16], next_ptr = 18,
                           avail = 4052\<rparr>,
          handles = Map.empty,
          procs = [15 \<mapsto> [1, 2, 3]], addrs = {},
          handler_func_map = Some [3 \<mapsto> foo_info 1], handler_network_class = Some 100,
          trace = [NaRecvUnexpected 13 11, NaSend 16 16 sent (Some 14) 9, NaWait,
                   NaAddrFree 14]\<rparr>"

text \<open>
  The wireup server: a transport that answers at once; a request that carries 8 address
  bytes while its header announces 16; a state with that request in the one receive
  buffer (117 bytes, the header taken as 24 bytes); a pool of one completed slot, 32
  bytes delivered, with a given status.
\<close>

definition t0 :: transport where
  "t0 = \<lparr>ep_create_status = UCS_OK, send_request = ReqOk, close_request = ReqOk\<rparr>"

definition req_short :: wireup_msg_t where
  "req_short = \<lparr>op = OP_REQ, sender_id = 0, addrlen = 16,
                 addr_w = [1, 2, 3, 4, 5, 6, 7, 8]\<rparr>"

definition s_rx :: sstate where
  "s_rx = \<lparr>sheap = \<lparr>blocks = [10 \<mapsto> 117], next_ptr = 11, avail = 4096\<rparr>,
           mem = [10 \<mapsto> req_short], out = []\<rparr>"

text \<open>
  A well-formed request (8 address bytes announced and carried) in the receive buffer; a
  state with only 100 bytes left to allocate; a transport whose send never completes.
\<close>

definition req_full :: wireup_msg_t where
  "req_full = \<lparr>op = OP_REQ, sender_id = 0, addrlen = 8,
                addr_w = [1, 2, 3, 4, 5, 6, 7, 8]\<rparr>"

definition s_full :: sstate where
  "s_full = \<lparr>sheap = \<lparr>blocks = [10 \<mapsto> 117], next_ptr = 11, avail = 4096\<rparr>,
             mem = [10 \<mapsto> req_full], out = []\<rparr>"

definition s_low :: sstate where
  "s_low = \<lparr>sheap = \<lparr>blocks = [10 \<mapsto> 117], next_ptr = 11, avail = 100\<rparr>,
            mem = [10 \<mapsto> req_full], out = []\<rparr>"

definition t_hang :: transport where
  "t_hang = \<lparr>ep_create_status = UCS_OK, send_request = ReqPtr None UCS_OK,
              close_request = ReqOk\<rparr>"

definition pool1 :: "ucs_status_t \<Rightarrow> rxpool_t" where
  "pool1 st = \<lparr>slots = [\<lparr>buf = 10, buflen = 117, rxlen = 32, status = st, sender_tag = 17,
                         completed = True\<rparr>],
               pool_tag = 17\<rparr>"

section \<open>Properties\<close>

subsection \<open>Auxiliary facts\<close>

lemmas handler_defs =
  fs_handler_get_input_def fs_handler_complete_def fs_handler_register_def
  obind_def S_ERROR_DEFAULT_def func_map_lookup_def func_map_insert_def
  fs_proc_free_def fs_proc_create_def free_w_def free_def malloc_w_def malloc_def
  fresh_ptr_def na_addr_free_def set_handle_def

lemmas server_defs =
  process_rx_msg_def run_server_once_def obind_def emit_def ep_close_def
  wait_completed_def rxdesc_setup_def rxpool_next_def fresh_ptr_def malloc_def free_def
  twice_or_max_def SIZE_MAX_def

text \<open>The concrete states are states the code reaches.\<close>

lemma w_srv_reached: "fs_handler_init (Some 100) w0 = (S_SUCCESS, w_srv)"
  by (simp add: fs_handler_init_def w0_def w_srv_def)

lemma w_reg_reached: "fs_handler_register env0 ''foo'' f dec0 enc0 w_srv = Done (w_reg f)"
  by (simp add: handler_defs env0_def w_srv_def w0_def w_reg_def func_map_new_def foo_info_def)

lemma w_call_reached:
  "fs_handler_receive env0 call0 ([0, 0, 0, 0, 0, 0, 0, 3, 1, 2, 3], 9) (w_reg 1) =
     Done (S_SUCCESS, w_call)"
  by (simp add: fs_handler_receive_def handler_defs env0_def w_reg_def w_call_def foo_info_def
      na_recv_unexpected_def call0_def)

lemma w_got_reached: "fs_handler_get_input 12 w_call = Done (S_SUCCESS, Some [1, 2, 3], w_got)"
  by (simp add: handler_defs w_call_def w_got_def foo_info_def dec0_def)

lemma w_done_reached:
  "fs_handler_complete env0 12 [7, 7] w_call = Done (S_SUCCESS, w_done [0, 0, 0, 0, 7, 7])"
  by (simp add: handler_defs w_call_def w_done_def foo_info_def enc0_def env0_def fun_upd_twist)

text \<open>\<open>rxpool_next\<close> returns a position of the pool, and the slot there has completed.\<close>

lemma first_completed_Some:
  "first_completed ds k = Some i \<Longrightarrow> k \<le> i \<and> i - k < length ds \<and> completed (ds ! (i - k))"
proof (induction ds arbitrary: k)
  case Nil
  then show ?case by simp
next
  case (Cons d ds)
  show ?case
  proof (cases "completed d")
    case True
    with Cons.prems show ?thesis by simp
  next
    case False
    with Cons.prems have "first_completed ds (Suc k) = Some i" by simp
    from Cons.IH [OF this]
    have ih: "Suc k \<le> i" "i - Suc k < length ds" "completed (ds ! (i - Suc k))" by simp_all
    from ih(1) have eq: "i - k = Suc (i - Suc k)" by arith
    from ih show ?thesis by (simp add: eq)
  qed
qed

lemma rxpool_next_Some:
  "rxpool_next rxpool = Some i \<Longrightarrow> i < length (slots rxpool) \<and> completed (slots rxpool ! i)"
  using first_completed_Some [of "slots rxpool" 0 i] by (simp add: rxpool_next_def)

text \<open>\<open>twice_or_max\<close> in natural numbers.\<close>

lemma unat_SIZE_MAX: "unat SIZE_MAX = 2 ^ 64 - 1"
  by (simp add: SIZE_MAX_def unsigned_minus_1_eq_mask mask_eq_exp_minus_1)

lemma SIZE_MAX_half_less: "(SIZE_MAX div 2 < b) = (2 ^ 63 \<le> unat b)"
proof -
  have "unat (SIZE_MAX div 2) = 2 ^ 63 - 1"
    by (simp add: unat_div unat_SIZE_MAX)
  then show ?thesis
    by (simp add: word_less_nat_alt) arith
qed

lemma unat_twice_or_max: "unat (twice_or_max b) = min (2 * unat b) (2 ^ 64 - 1)"
proof (cases "2 ^ 63 \<le> unat b")
  case True
  then show ?thesis
    by (simp add: twice_or_max_def SIZE_MAX_half_less unat_SIZE_MAX)
next
  case False
  then have lt: "2 * unat b < 2 ^ 64" by simp
  have "unat (2 * b) = 2 * unat b"
    using lt by (simp add: unat_word_ariths)
  with False lt show ?thesis
    by (simp add: twice_or_max_def SIZE_MAX_half_less)
qed

lemma le_twice_or_max: "b \<le> twice_or_max b"
  using unsigned_less [of b, where ?'a = nat] by (simp add: word_le_nat_alt unat_twice_or_max)

lemma unat_regrow:
  assumes "hdrlen \<le> b"
  shows "unat (twice_or_max b - hdrlen) = min (2 * unat b) (2 ^ 64 - 1) - unat hdrlen"
proof -
  from assms le_twice_or_max [of b] have "hdrlen \<le> twice_or_max b" by simp
  then have "unat (twice_or_max b - hdrlen) = unat (twice_or_max b) - unat hdrlen"
    by (simp add: unat_sub)
  then show ?thesis by (simp add: unat_twice_or_max)
qed

text \<open>The two malformed messages that \<open>process_rx_msg\<close> does drop: a warning, and nothing else.\<close>

lemma process_rx_msg_short:
  "len < hdrlen \<Longrightarrow>
   process_rx_msg t hdrlen tg b len w =
     Done (emit (Warnx ''%s: dropping %zu-byte message, shorter than header\<newline>'') w)"
  by (simp add: process_rx_msg_def)

lemma process_rx_msg_not_req:
  "\<not> len < hdrlen \<Longrightarrow> mem w b = Some msg \<Longrightarrow> op msg \<noteq> OP_REQ \<Longrightarrow>
   process_rx_msg t hdrlen tg b len w =
     Done (emit (Warnx ''%s: received unexpected %s-type op\<newline>'') w)"
  by (simp add: process_rx_msg_def)


subsection \<open>fs_handler_receive: an unknown operation id\<close>

text \<open>
  Claim C1 says that when the decoded operation id is not in the registry, the raw
  receive buffer, the decode context and the handle are released before
  \<open>fs_handler_receive\<close> returns failure. The code returns \<open>S_FAIL\<close> right after the
  log line: on a message with the unregistered id 7, received in a state with no live
  block and no live context, the handle (block 10), the receive buffer (block 11) and the
  decode context (13) are all still live afterwards, and the handle still refers to them.
\<close>

theorem fs_handler_receive_unknown_id_leaks:
  "fs_handler_receive env0 call0 ([0, 0, 0, 0, 0, 0, 0, 7, 1, 2, 3], 9) w_srv =
     Done (S_FAIL, w_dropped) \<and>
   blocks (heap w_srv) = Map.empty \<and> procs w_srv = Map.empty \<and>
   blocks (heap w_dropped) = [10 \<mapsto> 48, 11 \<mapsto> 16] \<and>
   procs w_dropped = [13 \<mapsto> [1, 2, 3]] \<and>
   map_option recv_buf (handles w_dropped 10) = Some (Some 11) \<and>
   map_option dec_proc (handles w_dropped 10) = Some (Some 13)"
  by (simp add: fs_handler_receive_def handler_defs env0_def w_srv_def w0_def w_dropped_def
      func_map_new_def na_recv_unexpected_def)


subsection \<open>run_server_once: the regrow step\<close>

text \<open>
  Claim C2 as stated (the new capacity is at least twice the previous buffer size) fails:
  the code subtracts the header length from the doubled size. A truncated slot of 117
  bytes, with a header of 24 bytes, is re-armed with 210 bytes, less than 234.
\<close>

theorem run_server_once_regrow_counterexample:
  "run_server_once t0 24 (pool1 UCS_ERR_MESSAGE_TRUNCATED) s_rx =
     Done (True,
           \<lparr>slots = [\<lparr>buf = 11, buflen = 210, rxlen = 32, status = UCS_ERR_MESSAGE_TRUNCATED,
                      sender_tag = 17, completed = False\<rparr>], pool_tag = 17\<rparr>,
           \<lparr>sheap = \<lparr>blocks = [11 \<mapsto> 210], next_ptr = 12, avail = 4003\<rparr>,
            mem = Map.empty,
            out = [Printf ''%s: truncated desc %p buf %p buflen %zu\<newline>'',
                   Printf ''increasing buffer length %zu -> %zu bytes.\<newline>'',
                   UcpTagRecv 0 11 210 17]\<rparr>) \<and>
   (210 :: size_t) < 2 * buflen (slots (pool1 UCS_ERR_MESSAGE_TRUNCATED) ! 0)"
  by (simp add: server_defs pool1_def s_rx_def)

text \<open>
  Claim C2, amended: for a slot that completed with the truncated status, whose buffer is
  at least a header long, the regrow step of \<open>run_server_once\<close> chooses the capacity
  \<open>twice_or_max(previous) - hdrlen\<close>, that is the doubled previous size, saturated at
  the largest \<open>size_t\<close>, less one header length, with no wrap-around; it is not below
  the previous size when the doubled size is representable. A buffer of that capacity is
  allocated, the old one is freed, and the slot is re-armed on the pool's tag. (The
  \<open>malloc\<close> must succeed: otherwise the process exits.)
\<close>

theorem run_server_once_regrow:
  assumes nxt: "rxpool_next rxpool = Some i"
    and trunc: "status (slots rxpool ! i) = UCS_ERR_MESSAGE_TRUNCATED"
    and hdr: "hdrlen \<le> buflen (slots rxpool ! i)"
    and room: "unat (twice_or_max (buflen (slots rxpool ! i)) - hdrlen) \<le> avail (sheap w)"
    and live: "blocks (sheap w) (buf (slots rxpool ! i)) = Some n"
    and old: "buf (slots rxpool ! i) < next_ptr (sheap w)"
  shows "\<exists>rxpool' w'.
           run_server_once t hdrlen rxpool w = Done (True, rxpool', w') \<and>
           unat (buflen (slots rxpool' ! i)) =
             min (2 * unat (buflen (slots rxpool ! i))) (2 ^ 64 - 1) - unat hdrlen \<and>
           (2 * unat (buflen (slots rxpool ! i)) \<le> 2 ^ 64 - 1 \<longrightarrow>
              buflen (slots rxpool ! i) \<le> buflen (slots rxpool' ! i)) \<and>
           buf (slots rxpool' ! i) = next_ptr (sheap w) \<and>
           blocks (sheap w') =
             (blocks (sheap w))
               (next_ptr (sheap w) \<mapsto> unat (buflen (slots rxpool' ! i)),
                buf (slots rxpool ! i) := None) \<and>
           completed (slots rxpool' ! i) = False \<and>
           pool_tag rxpool' = pool_tag rxpool \<and>
           last (out w') =
             UcpTagRecv i (next_ptr (sheap w)) (buflen (slots rxpool' ! i)) (pool_tag rxpool)"
proof -
  from rxpool_next_Some [OF nxt] have i: "i < length (slots rxpool)" by simp
  from old have ne: "buf (slots rxpool ! i) \<noteq> next_ptr (sheap w)" by simp
  have len: "unat (twice_or_max (buflen (slots rxpool ! i)) - hdrlen) =
             min (2 * unat (buflen (slots rxpool ! i))) (2 ^ 64 - 1) - unat hdrlen"
    by (rule unat_regrow [OF hdr])
  from hdr have hle: "unat hdrlen \<le> unat (buflen (slots rxpool ! i))"
    by (simp add: word_le_nat_alt)
  have grow: "2 * unat (buflen (slots rxpool ! i)) \<le> 2 ^ 64 - 1 \<longrightarrow>
      buflen (slots rxpool ! i) \<le> twice_or_max (buflen (slots rxpool ! i)) - hdrlen"
    using hle by (auto simp: word_le_nat_alt len)
  show ?thesis
    using nxt trunc room live ne i len grow
    by (simp add: run_server_once_def obind_def emit_def rxdesc_setup_def malloc_def free_def
        Let_def)
qed

theorem run_server_once_regrow_witness:
  "\<exists>rxpool' w'.
     run_server_once t0 24 (pool1 UCS_ERR_MESSAGE_TRUNCATED) s_rx = Done (True, rxpool', w') \<and>
     unat (buflen (slots rxpool' ! 0)) = 210 \<and>
     buflen (slots (pool1 UCS_ERR_MESSAGE_TRUNCATED) ! 0) \<le> buflen (slots rxpool' ! 0) \<and>
     buf (slots rxpool' ! 0) = 11 \<and>
     blocks (sheap w') = [11 \<mapsto> 210] \<and>
     completed (slots rxpool' ! 0) = False \<and>
     pool_tag rxpool' = 17 \<and>
     last (out w') = UcpTagRecv 0 11 (buflen (slots rxpool' ! 0)) 17"
proof -
  let ?p = "pool1 UCS_ERR_MESSAGE_TRUNCATED"
  have a: "rxpool_next ?p = Some 0" by (simp add: rxpool_next_def pool1_def)
  have b: "status (slots ?p ! 0) = UCS_ERR_MESSAGE_TRUNCATED" by (simp add: pool1_def)
  have c: "(24 :: size_t) \<le> buflen (slots ?p ! 0)" by (simp add: pool1_def)
  have d: "unat (twice_or_max (buflen (slots ?p ! 0)) - 24) \<le> avail (sheap s_rx)"
    by (simp add: pool1_def s_rx_def twice_or_max_def SIZE_MAX_def)
  have e: "blocks (sheap s_rx) (buf (slots ?p ! 0)) = Some 117" by (simp add: pool1_def s_rx_def)
  have f: "buf (slots ?p ! 0) < next_ptr (sheap s_rx)" by (simp add: pool1_def s_rx_def)
  from run_server_once_regrow [OF a b c d e f, of t0]
  show ?thesis by (fastforce simp: pool1_def s_rx_def)
qed


subsection \<open>process_rx_msg: malformed messages\<close>

text \<open>
  Claim C3 says that every malformed wireup message, one whose address length exceeds the
  delivered payload among them, is dropped with a warning and without any reply. The
  code warns "dropping ... address truncated" and then goes on: for a request of 32 bytes
  (a header of 24 bytes and 8 address bytes) that announces 16 address bytes, it creates
  the endpoint and sends the \<open>OP_ACK\<close> reply on the request's tag.
\<close>

theorem process_rx_msg_truncated_address_replies:
  "process_rx_msg t0 24 17 10 32 s_rx =
     Done (s_rx\<lparr>sheap := \<lparr>blocks = [10 \<mapsto> 117], next_ptr = 12, avail = 4096\<rparr>,
                out := [Warnx ''%s: dropping %zu-byte message, address truncated\<newline>'',
                        UcpEpCreate [1, 2, 3, 4, 5, 6, 7, 8],
                        UcpTagSend 11 reply_msg 17,
                        Printf ''send succeeded immediately, exiting.\<newline>'',
                        UcpEpClose 11]\<rparr>) \<and>
   map_option op (mem s_rx 10) = Some OP_REQ \<and>
   map_option addrlen (mem s_rx 10) = Some 16 \<and>
   op reply_msg = OP_ACK"
  by (simp add: server_defs t0_def s_rx_def req_short_def reply_msg_def)


subsection \<open>fs_handler_complete: a second call\<close>

text \<open>
  Claim C4 as stated (a second \<open>fs_handler_complete\<close> on the same handle is rejected or
  trapped by an assertion) fails: the code keeps no consumed flag and checks nothing. The
  first call frees the handle; the second reads the freed handle, which is undefined
  behaviour, not a failure return.
\<close>

theorem fs_handler_complete_twice_counterexample:
  "fs_handler_complete env0 12 [7, 7] w_call = Done (S_SUCCESS, w_done [0, 0, 0, 0, 7, 7]) \<and>
   fs_handler_complete env0 12 [7, 7] (w_done [0, 0, 0, 0, 7, 7]) = Undefined"
  by (simp add: handler_defs w_call_def w_done_def foo_info_def enc0_def env0_def fun_upd_twist)

text \<open>
  Claim C4, amended: a call of \<open>fs_handler_complete\<close> that returns success has issued
  exactly one send (followed by the wait and the release of the peer address) and has
  freed the handle; nothing records that the handle was consumed, so a second call on
  the same handle is not rejected: it reads freed memory (undefined behaviour).
\<close>

theorem fs_handler_complete_consumes_unchecked:
  assumes "fs_handler_complete e handle out_struct w = Done (S_SUCCESS, w')"
  shows "handles w' handle = None \<and> blocks (heap w') handle = None \<and>
         fs_handler_complete e handle out_struct2 w' = Undefined \<and>
         (\<exists>sb n bs a t. trace w' = trace w @ [NaSend sb n bs (Some a) t, NaWait, NaAddrFree a])"
  using assms
  by (auto simp: handler_defs Let_def split: option.splits outcome.splits if_splits prod.splits)

theorem fs_handler_complete_consumes_unchecked_witness:
  "fs_handler_complete env0 12 [7, 7] w_call = Done (S_SUCCESS, w_done [0, 0, 0, 0, 7, 7]) \<and>
   handles (w_done [0, 0, 0, 0, 7, 7]) 12 = None \<and>
   blocks (heap (w_done [0, 0, 0, 0, 7, 7])) 12 = None \<and>
   fs_handler_complete env0 12 [8] (w_done [0, 0, 0, 0, 7, 7]) = Undefined"
proof -
  have first: "fs_handler_complete env0 12 [7, 7] w_call =
                 Done (S_SUCCESS, w_done [0, 0, 0, 0, 7, 7])"
    by (simp add: handler_defs w_call_def w_done_def foo_info_def enc0_def env0_def
        fun_upd_twist)
  from fs_handler_complete_consumes_unchecked [OF first, of "[8]"] first
  show ?thesis by simp
qed


subsection \<open>fs_handler_register: a colliding id\<close>

text \<open>
  Claim C5 as stated (registering a name whose id is already a key fails and leaves the
  stored triple unchanged) fails: \<open>fs_handler_register\<close> returns nothing and inserts
  without a lookup. Registering \<open>foo\<close> a second time, with executor 2, returns normally
  and replaces the triple stored under the id of \<open>foo\<close>.
\<close>

theorem fs_handler_register_collision_counterexample:
  "handler_func_map (w_reg 1) = Some [fs_proc_string_hash env0 ''foo'' \<mapsto> foo_info 1] \<and>
   fs_handler_register env0 ''foo'' 2 dec0 enc0 (w_reg 1) =
     Done ((w_reg 1)\<lparr>heap := \<lparr>blocks = [10 \<mapsto> 4, 11 \<mapsto> 24, 12 \<mapsto> 4, 13 \<mapsto> 24],
                                 next_ptr = 14, avail = 4040\<rparr>,
                      handler_func_map :=
                        Some [fs_proc_string_hash env0 ''foo'' \<mapsto> foo_info 2]\<rparr>) \<and>
   foo_info 1 \<noteq> foo_info 2"
  by (simp add: handler_defs env0_def w_reg_def foo_info_def)

text \<open>
  Claim C5, amended: \<open>fs_handler_register\<close> has no failure path. In an initialised
  module (and with its two allocations served) it always stores the new triple under
  the hashed id; when the id is already a key, the triple stored there is replaced, and
  the entries under all other ids are unchanged.
\<close>

theorem fs_handler_register_overwrites:
  assumes "handler_func_map w = Some m" and "28 \<le> avail (heap w)"
  shows "\<exists>w'. fs_handler_register e func_name fs_r dec_r enc_r w = Done w' \<and>
           handler_func_map w' =
             Some (m(fs_proc_string_hash e func_name \<mapsto>
                       \<lparr>fs_routine = fs_r, dec_routine = dec_r, enc_routine = enc_r\<rparr>))"
  using assms by (simp add: handler_defs)

theorem fs_handler_register_overwrites_witness:
  "\<exists>w'. fs_handler_register env0 ''foo'' 2 dec0 enc0 (w_reg 1) = Done w' \<and>
         handler_func_map w' = Some [3 \<mapsto> foo_info 2]"
proof -
  have a: "handler_func_map (w_reg 1) = Some [3 \<mapsto> foo_info 1]" by (simp add: w_reg_def)
  have b: "28 \<le> avail (heap (w_reg 1))" by (simp add: w_reg_def)
  from fs_handler_register_overwrites [OF a b, of env0 "''foo''" 2 dec0 enc0]
  show ?thesis by (simp add: env0_def foo_info_def)
qed


subsection \<open>fs_handler_complete: the size of the send buffer\<close>

text \<open>
  Claim C6 as stated (the encoder's required size is queried, the buffer is exactly that
  plus the header, and a response that does not fit is rejected) fails: the size query is
  commented out. With 16-byte messages and a 4-byte status prefix the encoder has room
  for 12 bytes; for a 13-byte response the encoder reports failure after 12 bytes, and
  \<open>fs_handler_complete\<close> still sends the 16-byte buffer and returns success.
\<close>

theorem fs_handler_complete_oversized_counterexample:
  "unat (na_get_unexpected_size env0 - iofsl_compat_get_size_status env0) = 12 \<and>
   enc0 12 [1, 2, 3, 4, 5, 6, 7, 8, 9, 10, 11, 12, 13] =
     (- 1, [1, 2, 3, 4, 5, 6, 7, 8, 9, 10, 11, 12]) \<and>
   fs_handler_complete env0 12 [1, 2, 3, 4, 5, 6, 7, 8, 9, 10, 11, 12, 13] w_call =
     Done (S_SUCCESS, w_done [0, 0, 0, 0, 1, 2, 3, 4, 5, 6, 7, 8, 9, 10, 11, 12])"
  by (simp add: handler_defs w_call_def w_done_def foo_info_def enc0_def env0_def fun_upd_twist)

text \<open>
  Claim C6, amended: \<open>fs_handler_complete\<close> does not ask the encoder for a size. For
  every response, on a live handle with a registered id, it requests a send buffer of
  exactly the transport's unexpected-message size: the call fails with the allocation
  error exactly when fewer bytes than that are available, whatever the response.
  Otherwise it gives the encoder that size less the status prefix as room, ignores the
  encoder's return code, sends the whole buffer and returns success; a response that
  does not fit is not rejected.
\<close>

theorem fs_handler_complete_fixed_buffer:
  assumes "handles w handle = Some ph" and "blocks (heap w) handle = Some n"
    and "handle < next_ptr (heap w)"
    and "addr ph = Some a" and "a \<in> addrs w" and "in_struct ph = None"
    and "func_map_lookup (handler_func_map w) (id_h ph) = Done (Some pi)"
  shows "(unat (na_get_unexpected_size e) \<le> avail (heap w) \<longrightarrow>
          (\<exists>w'. fs_handler_complete e handle out_struct w = Done (S_SUCCESS, w') \<and>
             trace w' = trace w @
               [NaSend (next_ptr (heap w)) (unat (na_get_unexpected_size e))
                  (status_prefix e @
                   snd (enc_routine pi
                          (na_get_unexpected_size e - iofsl_compat_get_size_status e)
                          out_struct))
                  (Some a) (tag ph),
                NaWait, NaAddrFree a])) \<and>
         (avail (heap w) < unat (na_get_unexpected_size e) \<longrightarrow>
          fs_handler_complete e handle out_struct w =
            Done (S_FAIL,
                  w\<lparr>trace := trace w @ [ErrorLog ''send buffer allocation failed.\<newline>'']\<rparr>))"
  using assms
  by (auto simp: handler_defs Let_def split: option.splits outcome.splits if_splits prod.splits)

theorem fs_handler_complete_fixed_buffer_witness:
  "(\<exists>w'. fs_handler_complete env0 12 [1, 2, 3, 4, 5, 6, 7, 8, 9, 10, 11, 12, 13] w_call =
           Done (S_SUCCESS, w') \<and>
         trace w' = [NaRecvUnexpected 13 11,
                     NaSend 16 16 [0, 0, 0, 0, 1, 2, 3, 4, 5, 6, 7, 8, 9, 10, 11, 12] (Some 14) 9,
                     NaWait, NaAddrFree 14]) \<and>
   avail (heap w_call_low) = 15 \<and>
   fs_handler_complete env0 12 [7] w_call_low =
     Done (S_FAIL,
           w_call_low\<lparr>trace := [NaRecvUnexpected 13 11,
                                 ErrorLog ''send buffer allocation failed.\<newline>'']\<rparr>)"
proof -
  let ?ph = "\<lparr>id_h = 3, addr = Some 14, tag = 9, dec_proc = Some 15,
              recv_buf = Some 13, in_struct = None\<rparr>"
  have a: "handles w_call 12 = Some ?ph" by (simp add: w_call_def)
  have b: "blocks (heap w_call) 12 = Some 48" by (simp add: w_call_def)
  have c: "12 < next_ptr (heap w_call)" by (simp add: w_call_def)
  have d: "addr ?ph = Some 14" by simp
  have e: "14 \<in> addrs w_call" by (simp add: w_call_def)
  have f: "in_struct ?ph = None" by simp
  have g: "func_map_lookup (handler_func_map w_call) (id_h ?ph) = Done (Some (foo_info 1))"
    by (simp add: w_call_def func_map_lookup_def)
  have h: "unat (na_get_unexpected_size env0) \<le> avail (heap w_call)"
    by (simp add: w_call_def env0_def)
  have a': "handles w_call_low 12 = Some ?ph" by (simp add: w_call_low_def w_call_def)
  have b': "blocks (heap w_call_low) 12 = Some 48" by (simp add: w_call_low_def)
  have c': "12 < next_ptr (heap w_call_low)" by (simp add: w_call_low_def)
  have e': "14 \<in> addrs w_call_low" by (simp add: w_call_low_def w_call_def)
  have g': "func_map_lookup (handler_func_map w_call_low) (id_h ?ph) = Done (Some (foo_info 1))"
    by (simp add: w_call_low_def w_call_def func_map_lookup_def)
  have h': "avail (heap w_call_low) < unat (na_get_unexpected_size env0)"
    by (simp add: w_call_low_def env0_def)
  from fs_handler_complete_fixed_buffer
         [OF a b c d e f g, of env0 "[1, 2, 3, 4, 5, 6, 7, 8, 9, 10, 11, 12, 13]"] h
  have A: "\<exists>w'. fs_handler_complete env0 12 [1, 2, 3, 4, 5, 6, 7, 8, 9, 10, 11, 12, 13] w_call =
           Done (S_SUCCESS, w') \<and>
         trace w' = [NaRecvUnexpected 13 11,
                     NaSend 16 16 [0, 0, 0, 0, 1, 2, 3, 4, 5, 6, 7, 8, 9, 10, 11, 12] (Some 14) 9,
                     NaWait, NaAddrFree 14]"
    by (simp add: w_call_def env0_def foo_info_def enc0_def)
  from fs_handler_complete_fixed_buffer [OF a' b' c' d e' f g', of env0 "[7]"] h'
  have B: "fs_handler_complete env0 12 [7] w_call_low =
     Done (S_FAIL,
           w_call_low\<lparr>trace := [NaRecvUnexpected 13 11,
                                 ErrorLog ''send buffer allocation failed.\<newline>'']\<rparr>)"
    by (simp add: w_call_low_def w_call_def)
  from A B show ?thesis by (simp add: w_call_low_def)
qed


subsection \<open>fs_handler_get_input\<close>

text \<open>
  Claim C7: \<open>fs_handler_get_input\<close> is idempotent. After a call that returned success,
  a further call on the same handle returns success, stores nothing and leaves the state
  as it is (no second free; so does every call after it). When the handle owned a
  receive buffer and a decode context, the successful first call stored the decoder's
  result in the caller's struct, freed exactly that buffer and that context and cleared
  both references; when it did not own both, the first call was already a no-op.
\<close>

theorem fs_handler_get_input_idempotent:
  assumes first: "fs_handler_get_input handle w = Done (S_SUCCESS, r, w')"
  shows "fs_handler_get_input handle w' = Done (S_SUCCESS, None, w') \<and>
         (\<forall>ph rb dp.
            handles w handle = Some ph \<and> recv_buf ph = Some rb \<and> dec_proc ph = Some dp \<longrightarrow>
            (\<exists>pi bs. func_map_lookup (handler_func_map w) (id_h ph) = Done (Some pi) \<and>
                     procs w dp = Some bs \<and> r = Some (snd (dec_routine pi bs))) \<and>
            handles w' = (handles w)(handle \<mapsto> ph\<lparr>dec_proc := None, recv_buf := None\<rparr>) \<and>
            blocks (heap w') = (blocks (heap w))(rb := None) \<and>
            procs w' = (procs w)(dp := None) \<and>
            trace w' = trace w) \<and>
         (\<forall>ph. handles w handle = Some ph \<and> (recv_buf ph = None \<or> dec_proc ph = None) \<longrightarrow>
            r = None \<and> w' = w)"
  using first
  by (auto simp: fs_handler_get_input_def obind_def S_ERROR_DEFAULT_def func_map_lookup_def
      fs_proc_free_def free_w_def free_def
      split: option.splits outcome.splits)

theorem fs_handler_get_input_idempotent_witness:
  "fs_handler_get_input 12 w_call = Done (S_SUCCESS, Some [1, 2, 3], w_got) \<and>
   fs_handler_get_input 12 w_got = Done (S_SUCCESS, None, w_got) \<and>
   blocks (heap w_got) 13 = None \<and> procs w_got 15 = None \<and>
   map_option recv_buf (handles w_got 12) = Some None \<and>
   map_option dec_proc (handles w_got 12) = Some None"
proof -
  have first: "fs_handler_get_input 12 w_call = Done (S_SUCCESS, Some [1, 2, 3], w_got)"
    by (simp add: handler_defs w_call_def w_got_def foo_info_def dec0_def)
  have second: "fs_handler_get_input 12 w_got = Done (S_SUCCESS, None, w_got)"
    by (simp add: handler_defs w_got_def)
  from fs_handler_get_input_idempotent [OF first] fs_handler_get_input_idempotent [OF second]
    first
  show ?thesis
    by (simp add: w_got_def)
qed


subsection \<open>The serving loop\<close>

lemma run_server_once_truncated:
  assumes nxt: "rxpool_next rxpool = Some i"
    and trunc: "status (slots rxpool ! i) = UCS_ERR_MESSAGE_TRUNCATED"
    and room: "unat (twice_or_max (buflen (slots rxpool ! i)) - hdrlen) \<le> avail (sheap w)"
    and live: "blocks (sheap w) (buf (slots rxpool ! i)) = Some n"
  shows "\<exists>w'. run_server_once t hdrlen rxpool w =
           Done (True,
                 rxpool\<lparr>slots := (slots rxpool)[i := (slots rxpool ! i)
                    \<lparr>buf := next_ptr (sheap w),
                     buflen := twice_or_max (buflen (slots rxpool ! i)) - hdrlen,
                     completed := False\<rparr>]\<rparr>, w') \<and>
           last (out w') =
             UcpTagRecv i (next_ptr (sheap w))
               (twice_or_max (buflen (slots rxpool ! i)) - hdrlen) (pool_tag rxpool)"
proof -
  from rxpool_next_Some [OF nxt] have i: "i < length (slots rxpool)" by simp
  show ?thesis
    using nxt trunc room live i
    by (cases "buf (slots rxpool ! i) = next_ptr (sheap w)")
       (simp_all add: run_server_once_def obind_def emit_def rxdesc_setup_def malloc_def free_def
          Let_def)
qed

lemma process_rx_msg_returns:
  assumes "mem w b = Some msg"
    and "len < hdrlen \<or> op msg \<noteq> OP_REQ \<or>
         (ep_create_status t = UCS_OK \<and> request_completes (send_request t) \<and>
          request_completes (close_request t))"
  shows "\<exists>w1. process_rx_msg t hdrlen tg b len w = Done w1"
  using assms
  by (cases "send_request t"; cases "close_request t")
     (auto simp: process_rx_msg_def request_completes_def obind_def ep_close_def
        wait_completed_def emit_def fresh_ptr_def Let_def split: prod.splits)

lemma process_rx_msg_hangs:
  assumes "mem w b = Some msg" and "\<not> len < hdrlen" and "op msg = OP_REQ"
    and "ep_create_status t = UCS_OK" and "send_request t = ReqPtr None st"
  shows "process_rx_msg t hdrlen tg b len w = Diverged"
  using assms
  by (auto simp: process_rx_msg_def obind_def wait_completed_def emit_def fresh_ptr_def Let_def
      split: prod.splits)

text \<open>
  Claim C8 as stated (for every slot returned with an Ok or Truncated status the loop
  re-arms the slot and continues serving) fails. For a truncated slot whose new buffer
  cannot be allocated the process exits; for an Ok slot with a well-formed request whose
  reply send never completes the wait loop of \<open>process_rx_msg\<close> never returns. In
  both cases the slot is not re-armed and the loop does not continue.
\<close>

theorem run_server_once_exits_or_hangs_counterexample:
  "status (slots (pool1 UCS_ERR_MESSAGE_TRUNCATED) ! 0) = UCS_ERR_MESSAGE_TRUNCATED \<and>
   run_server_once t0 24 (pool1 UCS_ERR_MESSAGE_TRUNCATED) s_low = Exited \<and>
   serve 24 [(t0, []), (t0, [])] (pool1 UCS_ERR_MESSAGE_TRUNCATED) s_low = Exited \<and>
   status (slots (pool1 UCS_OK) ! 0) = UCS_OK \<and>
   run_server_once t_hang 24 (pool1 UCS_OK) s_full = Diverged \<and>
   serve 24 [(t_hang, []), (t0, [])] (pool1 UCS_OK) s_full = Diverged"
  by (simp add: server_defs pool1_def s_low_def s_full_def req_full_def t_hang_def)

text \<open>
  Claim C8, amended: when the slot that \<open>rxpool_next\<close> returns carries a status that is
  neither \<open>UCS_OK\<close> nor \<open>UCS_ERR_MESSAGE_TRUNCATED\<close>, the status is printed,
  \<open>run_server_once\<close> returns \<open>false\<close> and the loop is left, whatever the rest of the
  schedule holds. For an Ok slot whose message is dropped by \<open>process_rx_msg\<close>, or for
  which the transport creates the endpoint and completes the send and the close, and for
  a Truncated slot whose new buffer can be allocated, the slot is re-armed on the pool's
  tag, \<open>run_server_once\<close> returns \<open>true\<close> and the loop goes on with the next
  \<open>ucp_worker_progress\<close>. For a Truncated slot whose new buffer cannot be allocated
  the process exits; for an Ok slot with a request whose send never completes the loop
  never returns.
\<close>

theorem run_server_once_fatal_stops_else_rearms:
  assumes nxt: "rxpool_next rxpool = Some i"
  shows
  "(status (slots rxpool ! i) \<noteq> UCS_OK \<and>
    status (slots rxpool ! i) \<noteq> UCS_ERR_MESSAGE_TRUNCATED \<longrightarrow>
      run_server_once t hdrlen rxpool w =
        Done (False, rxpool,
              emit (PrintfStatus ''receive error, %s, exiting.\<newline>''
                      (status (slots rxpool ! i))) w) \<and>
      serve hdrlen ((t, cs) # sched) rxpool w =
        Done (Stopped rxpool
               (emit (PrintfStatus ''receive error, %s, exiting.\<newline>''
                        (status (slots rxpool ! i))) w)))
   \<and> (\<forall>msg. status (slots rxpool ! i) = UCS_OK \<and>
          mem w (buf (slots rxpool ! i)) = Some msg \<and>
          (rxlen (slots rxpool ! i) < hdrlen \<or> op msg \<noteq> OP_REQ \<or>
           (ep_create_status t = UCS_OK \<and> request_completes (send_request t) \<and>
            request_completes (close_request t))) \<longrightarrow>
      (\<exists>w1.
         process_rx_msg t hdrlen (sender_tag (slots rxpool ! i)) (buf (slots rxpool ! i))
           (rxlen (slots rxpool ! i))
           (emit (Printf ''received %zu-byte message tagged %lu, processing...\<newline>'') w) =
           Done w1 \<and>
         run_server_once t hdrlen rxpool w =
           Done (True,
                 rxpool\<lparr>slots := (slots rxpool)[i := (slots rxpool ! i)\<lparr>completed := False\<rparr>]\<rparr>,
                 emit (UcpTagRecv i (buf (slots rxpool ! i)) (buflen (slots rxpool ! i))
                         (pool_tag rxpool)) w1) \<and>
         serve hdrlen ((t, cs) # sched) rxpool w =
           (let (rxpool'', w'') =
                  ucp_worker_progress cs
                    (rxpool\<lparr>slots := (slots rxpool)
                               [i := (slots rxpool ! i)\<lparr>completed := False\<rparr>]\<rparr>)
                    (emit (UcpTagRecv i (buf (slots rxpool ! i)) (buflen (slots rxpool ! i))
                             (pool_tag rxpool)) w1)
            in serve hdrlen sched rxpool'' w'')))
   \<and> (\<forall>n. status (slots rxpool ! i) = UCS_ERR_MESSAGE_TRUNCATED \<and>
        unat (twice_or_max (buflen (slots rxpool ! i)) - hdrlen) \<le> avail (sheap w) \<and>
        blocks (sheap w) (buf (slots rxpool ! i)) = Some n \<longrightarrow>
      (\<exists>rxpool' w'.
         run_server_once t hdrlen rxpool w = Done (True, rxpool', w') \<and>
         serve hdrlen ((t, cs) # sched) rxpool w =
           (let (rxpool'', w'') = ucp_worker_progress cs rxpool' w'
            in serve hdrlen sched rxpool'' w'') \<and>
         slots rxpool' =
           (slots rxpool)[i := (slots rxpool ! i)
              \<lparr>buf := next_ptr (sheap w),
               buflen := twice_or_max (buflen (slots rxpool ! i)) - hdrlen,
               completed := False\<rparr>] \<and>
         pool_tag rxpool' = pool_tag rxpool \<and>
         last (out w') =
           UcpTagRecv i (next_ptr (sheap w))
             (twice_or_max (buflen (slots rxpool ! i)) - hdrlen) (pool_tag rxpool)))
   \<and> (status (slots rxpool ! i) = UCS_ERR_MESSAGE_TRUNCATED \<and>
       avail (sheap w) < unat (twice_or_max (buflen (slots rxpool ! i)) - hdrlen) \<longrightarrow>
      run_server_once t hdrlen rxpool w = Exited \<and>
      serve hdrlen ((t, cs) # sched) rxpool w = Exited)
   \<and> (\<forall>msg st. status (slots rxpool ! i) = UCS_OK \<and>
          mem w (buf (slots rxpool ! i)) = Some msg \<and>
          \<not> rxlen (slots rxpool ! i) < hdrlen \<and> op msg = OP_REQ \<and>
          ep_create_status t = UCS_OK \<and> send_request t = ReqPtr None st \<longrightarrow>
      run_server_once t hdrlen rxpool w = Diverged \<and>
      serve hdrlen ((t, cs) # sched) rxpool w = Diverged)"
    (is "?fatal \<and> (\<forall>msg. ?HO msg \<longrightarrow> ?CO) \<and> (\<forall>n. ?H n \<longrightarrow> ?C) \<and> ?exit \<and>
         (\<forall>msg st. ?HD msg st \<longrightarrow> ?CD)")
proof -
  let ?w0 = "emit (Printf ''received %zu-byte message tagged %lu, processing...\<newline>'') w"
  have fatal: ?fatal
    using nxt by (simp add: run_server_once_def obind_def Let_def)
  have ok: "?HO msg \<longrightarrow> ?CO" for msg
  proof
    assume h: "?HO msg"
    from h have st: "status (slots rxpool ! i) = UCS_OK" by simp
    from h have m: "mem ?w0 (buf (slots rxpool ! i)) = Some msg" by (simp add: emit_def)
    from h have t: "rxlen (slots rxpool ! i) < hdrlen \<or> op msg \<noteq> OP_REQ \<or>
           (ep_create_status t = UCS_OK \<and> request_completes (send_request t) \<and>
            request_completes (close_request t))" by simp
    from process_rx_msg_returns [OF m t, of "sender_tag (slots rxpool ! i)"]
    obtain w1 where ret:
      "process_rx_msg t hdrlen (sender_tag (slots rxpool ! i)) (buf (slots rxpool ! i))
         (rxlen (slots rxpool ! i)) ?w0 = Done w1"
      by blast
    show ?CO
      by (rule exI [of _ w1])
        (use nxt st ret in \<open>simp add: run_server_once_def obind_def rxdesc_setup_def Let_def\<close>)
  qed
  have tr: "?H n \<longrightarrow> ?C" for n
  proof
    assume h: "?H n"
    from h have a: "status (slots rxpool ! i) = UCS_ERR_MESSAGE_TRUNCATED"
      and b: "unat (twice_or_max (buflen (slots rxpool ! i)) - hdrlen) \<le> avail (sheap w)"
      and c: "blocks (sheap w) (buf (slots rxpool ! i)) = Some n"
      by simp_all
    from run_server_once_truncated [OF nxt a b c, of t]
    obtain w' where once: "run_server_once t hdrlen rxpool w =
        Done (True,
              rxpool\<lparr>slots := (slots rxpool)[i := (slots rxpool ! i)
                 \<lparr>buf := next_ptr (sheap w),
                  buflen := twice_or_max (buflen (slots rxpool ! i)) - hdrlen,
                  completed := False\<rparr>]\<rparr>, w')"
      and lst: "last (out w') =
           UcpTagRecv i (next_ptr (sheap w))
             (twice_or_max (buflen (slots rxpool ! i)) - hdrlen) (pool_tag rxpool)"
      by blast
    show ?C
      by (rule exI [of _ "rxpool\<lparr>slots := (slots rxpool)[i := (slots rxpool ! i)
                 \<lparr>buf := next_ptr (sheap w),
                  buflen := twice_or_max (buflen (slots rxpool ! i)) - hdrlen,
                  completed := False\<rparr>]\<rparr>"], rule exI [of _ w'])
        (simp add: once lst obind_def)
  qed
  have ex: ?exit
    using nxt by (simp add: run_server_once_def obind_def malloc_def emit_def Let_def)
  have hang: "?HD msg st \<longrightarrow> ?CD" for msg st
  proof
    assume h: "?HD msg st"
    from h have st: "status (slots rxpool ! i) = UCS_OK" by simp
    from h have m: "mem ?w0 (buf (slots rxpool ! i)) = Some msg" by (simp add: emit_def)
    from h have rest: "\<not> rxlen (slots rxpool ! i) < hdrlen" "op msg = OP_REQ"
      "ep_create_status t = UCS_OK" "send_request t = ReqPtr None st" by simp_all
    from process_rx_msg_hangs [OF m rest, of "sender_tag (slots rxpool ! i)"]
    have "process_rx_msg t hdrlen (sender_tag (slots rxpool ! i)) (buf (slots rxpool ! i))
         (rxlen (slots rxpool ! i)) ?w0 = Diverged" .
    with nxt st show ?CD
      by (simp add: run_server_once_def obind_def Let_def)
  qed
  from fatal ok tr ex hang show ?thesis by blast
qed

theorem run_server_once_fatal_stops_else_rearms_witness:
  "serve 24 [(t0, []), (t0, [])] (pool1 (UCS_OTHER (- 3))) s_rx =
     Done (Stopped (pool1 (UCS_OTHER (- 3)))
            (emit (PrintfStatus ''receive error, %s, exiting.\<newline>'' (UCS_OTHER (- 3))) s_rx)) \<and>
   (\<exists>w1. run_server_once t0 24 (pool1 UCS_OK) s_full =
            Done (True,
                  \<lparr>slots = [\<lparr>buf = 10, buflen = 117, rxlen = 32, status = UCS_OK,
                             sender_tag = 17, completed = False\<rparr>], pool_tag = 17\<rparr>,
                  emit (UcpTagRecv 0 10 117 17) w1)) \<and>
   (\<exists>rxpool' w'. run_server_once t0 24 (pool1 UCS_ERR_MESSAGE_TRUNCATED) s_rx =
            Done (True, rxpool', w') \<and>
          slots rxpool' = [\<lparr>buf = 11, buflen = 210, rxlen = 32,
                            status = UCS_ERR_MESSAGE_TRUNCATED, sender_tag = 17,
                            completed = False\<rparr>] \<and>
          last (out w') = UcpTagRecv 0 11 210 17) \<and>
   run_server_once t0 24 (pool1 UCS_ERR_MESSAGE_TRUNCATED) s_low = Exited \<and>
   run_server_once t_hang 24 (pool1 UCS_OK) s_full = Diverged"
proof -
  have n: "rxpool_next (pool1 st) = Some 0" for st
    by (simp add: rxpool_next_def pool1_def)
  have st: "status (slots (pool1 s) ! 0) = s" for s
    by (simp add: pool1_def)
  have fatal: "status (slots (pool1 (UCS_OTHER (- 3))) ! 0) \<noteq> UCS_OK \<and>
               status (slots (pool1 (UCS_OTHER (- 3))) ! 0) \<noteq> UCS_ERR_MESSAGE_TRUNCATED"
    by (simp add: pool1_def)
  have ok: "status (slots (pool1 UCS_OK) ! 0) = UCS_OK \<and>
        mem s_full (buf (slots (pool1 UCS_OK) ! 0)) = Some req_full \<and>
        (rxlen (slots (pool1 UCS_OK) ! 0) < 24 \<or> op req_full \<noteq> OP_REQ \<or>
         (ep_create_status t0 = UCS_OK \<and> request_completes (send_request t0) \<and>
          request_completes (close_request t0)))"
    by (simp add: pool1_def s_full_def t0_def request_completes_def)
  have tr: "status (slots (pool1 UCS_ERR_MESSAGE_TRUNCATED) ! 0) = UCS_ERR_MESSAGE_TRUNCATED \<and>
        unat (twice_or_max (buflen (slots (pool1 UCS_ERR_MESSAGE_TRUNCATED) ! 0)) - 24)
          \<le> avail (sheap s_rx) \<and>
        blocks (sheap s_rx) (buf (slots (pool1 UCS_ERR_MESSAGE_TRUNCATED) ! 0)) = Some 117"
    by (simp add: pool1_def s_rx_def twice_or_max_def SIZE_MAX_def)
  have low: "status (slots (pool1 UCS_ERR_MESSAGE_TRUNCATED) ! 0) = UCS_ERR_MESSAGE_TRUNCATED \<and>
        avail (sheap s_low)
          < unat (twice_or_max (buflen (slots (pool1 UCS_ERR_MESSAGE_TRUNCATED) ! 0)) - 24)"
    by (simp add: pool1_def s_low_def twice_or_max_def SIZE_MAX_def)
  have hang: "status (slots (pool1 UCS_OK) ! 0) = UCS_OK \<and>
        mem s_full (buf (slots (pool1 UCS_OK) ! 0)) = Some req_full \<and>
        \<not> rxlen (slots (pool1 UCS_OK) ! 0) < 24 \<and> op req_full = OP_REQ \<and>
        ep_create_status t_hang = UCS_OK \<and> send_request t_hang = ReqPtr None UCS_OK"
    by (simp add: pool1_def s_full_def t_hang_def req_full_def)
  from run_server_once_fatal_stops_else_rearms
         [OF n, where st1 = "UCS_OTHER (- 3)" and t = t0 and hdrlen = 24 and w = s_rx
            and cs = "[]" and sched = "[(t0, [])]"] fatal
  have A: "serve 24 [(t0, []), (t0, [])] (pool1 (UCS_OTHER (- 3))) s_rx =
     Done (Stopped (pool1 (UCS_OTHER (- 3)))
            (emit (PrintfStatus ''receive error, %s, exiting.\<newline>'' (UCS_OTHER (- 3))) s_rx))"
    by (simp add: st del: serve.simps)
  from run_server_once_fatal_stops_else_rearms
         [OF n, where st1 = UCS_OK and t = t0 and hdrlen = 24 and w = s_full
            and cs = "[]" and sched = "[]"] ok
  have B: "\<exists>w1. run_server_once t0 24 (pool1 UCS_OK) s_full =
            Done (True,
                  \<lparr>slots = [\<lparr>buf = 10, buflen = 117, rxlen = 32, status = UCS_OK,
                             sender_tag = 17, completed = False\<rparr>], pool_tag = 17\<rparr>,
                  emit (UcpTagRecv 0 10 117 17) w1)"
    by (fastforce simp: pool1_def)
  from run_server_once_fatal_stops_else_rearms
         [OF n, where st1 = UCS_ERR_MESSAGE_TRUNCATED and t = t0 and hdrlen = 24 and w = s_rx
            and cs = "[]" and sched = "[]"] tr
  have C: "\<exists>rxpool' w'. run_server_once t0 24 (pool1 UCS_ERR_MESSAGE_TRUNCATED) s_rx =
            Done (True, rxpool', w') \<and>
          slots rxpool' = [\<lparr>buf = 11, buflen = 210, rxlen = 32,
                            status = UCS_ERR_MESSAGE_TRUNCATED, sender_tag = 17,
                            completed = False\<rparr>] \<and>
          last (out w') = UcpTagRecv 0 11 210 17"
    by (fastforce simp: pool1_def s_rx_def twice_or_max_def SIZE_MAX_def)
  from run_server_once_fatal_stops_else_rearms
         [OF n, where st1 = UCS_ERR_MESSAGE_TRUNCATED and t = t0 and hdrlen = 24 and w = s_low
            and cs = "[]" and sched = "[]"] low
  have D: "run_server_once t0 24 (pool1 UCS_ERR_MESSAGE_TRUNCATED) s_low = Exited"
    by blast
  from run_server_once_fatal_stops_else_rearms
         [OF n, where st1 = UCS_OK and t = t_hang and hdrlen = 24 and w = s_full
            and cs = "[]" and sched = "[]"] hang
  have E: "run_server_once t_hang 24 (pool1 UCS_OK) s_full = Diverged"
    by blast
  from A B C D E show ?thesis by simp
qed


subsection \<open>fs_handler_init and fs_handler_finalize\<close>

text \<open>The statics are changed by \<open>fs_handler_init\<close> and \<open>fs_handler_finalize\<close> only.\<close>

lemma register_keeps_class:
  "fs_handler_register e func_name fs_r dec_r enc_r w = Done w' \<Longrightarrow>
   handler_network_class w' = handler_network_class w"
  by (auto simp: handler_defs Let_def split: option.splits prod.splits if_splits)

lemma get_input_keeps_statics:
  "fs_handler_get_input handle w = Done (r, x, w') \<Longrightarrow>
   handler_network_class w' = handler_network_class w \<and> handler_func_map w' = handler_func_map w"
  by (auto simp: handler_defs Let_def split: option.splits prod.splits if_splits outcome.splits)

lemma complete_keeps_statics:
  "fs_handler_complete e handle out_struct w = Done (r, w') \<Longrightarrow>
   handler_network_class w' = handler_network_class w \<and> handler_func_map w' = handler_func_map w"
  by (auto simp: handler_defs Let_def split: option.splits prod.splits if_splits outcome.splits)

lemma register_map:
  "fs_handler_register e func_name fs_r dec_r enc_r w = Done w' \<Longrightarrow> handler_func_map w = Some m \<Longrightarrow>
   handler_func_map w' = Some (m(fs_proc_string_hash e func_name \<mapsto>
                       \<lparr>fs_routine = fs_r, dec_routine = dec_r, enc_routine = enc_r\<rparr>))"
  by (auto simp: handler_defs Let_def split: option.splits prod.splits if_splits)

text \<open>
  Claim C9 as stated (at the public interface, an init after an init fails and a
  finalize of an initialised module succeeds) fails for a \<open>NULL\<close> network class: the
  module's flag is the stored pointer itself. \<open>fs_handler_init(NULL)\<close> returns success,
  \<open>foo\<close> is then registered, and yet a second \<open>fs_handler_init\<close> succeeds and replaces
  the function map (the entry of \<open>foo\<close> is gone), and \<open>fs_handler_finalize\<close> fails.
\<close>

theorem fs_handler_init_null_counterexample:
  "fs_handler_init None w0 = (S_SUCCESS, w0\<lparr>handler_func_map := Some func_map_new\<rparr>) \<and>
   fs_handler_register env0 ''foo'' 1 dec0 enc0 (w0\<lparr>handler_func_map := Some func_map_new\<rparr>) =
     Done w_null_reg \<and>
   handler_func_map w_null_reg = Some [3 \<mapsto> foo_info 1] \<and>
   fs_handler_init (Some 100) w_null_reg =
     (S_SUCCESS, w_null_reg\<lparr>handler_network_class := Some 100,
                             handler_func_map := Some func_map_new\<rparr>) \<and>
   func_map_new 3 = None \<and>
   fs_handler_finalize w_null_reg =
     (S_FAIL, w_null_reg\<lparr>trace := [ErrorLog ''Already finalized'']\<rparr>)"
  by (simp add: fs_handler_init_def fs_handler_finalize_def handler_defs w0_def w_null_reg_def
      w_reg_def env0_def foo_info_def func_map_new_def)

text \<open>
  Claim C9, amended: the module is initialised exactly while the stored network class is
  not \<open>NULL\<close>, which a successful \<open>fs_handler_init\<close> with a network class other than
  \<open>NULL\<close> establishes and which registrations, \<open>fs_handler_get_input\<close> and
  \<open>fs_handler_complete\<close> keep. After such an init, also with a function registered
  since, a further \<open>fs_handler_init\<close> returns failure and changes neither the stored
  network class nor the function map (it only logs), and \<open>fs_handler_finalize\<close>
  succeeds; \<open>fs_handler_finalize\<close> on a module that is not initialised (as after a
  successful finalize) returns failure and changes nothing (it only logs); after a
  successful \<open>fs_handler_finalize\<close> both statics are \<open>NULL\<close> again and
  \<open>fs_handler_init\<close> succeeds, storing the given network class and a new function
  map.
\<close>

theorem fs_handler_init_finalize_once:
  "(fs_handler_init (Some c) w = (S_SUCCESS, w') \<longrightarrow>
      handler_network_class w' = Some c \<and> handler_func_map w' = Some func_map_new \<and>
      fs_handler_init nc w' =
        (S_FAIL, w'\<lparr>trace := trace w' @ [ErrorLog ''Already initialized'']\<rparr>) \<and>
      fs_handler_finalize w' =
        (S_SUCCESS, w'\<lparr>trace := trace w' @ [NaFinalize c], handler_func_map := None,
                        handler_network_class := None\<rparr>) \<and>
      fs_handler_finalize (snd (fs_handler_finalize w')) =
        (S_FAIL, (snd (fs_handler_finalize w'))
                   \<lparr>trace := trace w' @ [NaFinalize c, ErrorLog ''Already finalized'']\<rparr>))
   \<and> (fs_handler_init (Some c) w = (S_SUCCESS, w') \<and>
       fs_handler_register e func_name fs_r dec_r enc_r w' = Done w'' \<longrightarrow>
      handler_func_map w'' =
        Some [fs_proc_string_hash e func_name \<mapsto>
                \<lparr>fs_routine = fs_r, dec_routine = dec_r, enc_routine = enc_r\<rparr>] \<and>
      fs_handler_init nc w'' =
        (S_FAIL, w''\<lparr>trace := trace w'' @ [ErrorLog ''Already initialized'']\<rparr>) \<and>
      fst (fs_handler_finalize w'') = S_SUCCESS)
   \<and> ((fs_handler_register e func_name fs_r dec_r enc_r w1 = Done w1' \<longrightarrow>
         handler_network_class w1' = handler_network_class w1) \<and>
       (fs_handler_get_input handle w1 = Done (r, x, w1') \<longrightarrow>
         handler_network_class w1' = handler_network_class w1 \<and>
         handler_func_map w1' = handler_func_map w1) \<and>
       (fs_handler_complete e handle out_struct w1 = Done (r, w1') \<longrightarrow>
         handler_network_class w1' = handler_network_class w1 \<and>
         handler_func_map w1' = handler_func_map w1))
   \<and> (handler_network_class w1 \<noteq> None \<longrightarrow>
      fs_handler_init nc w1 =
        (S_FAIL, w1\<lparr>trace := trace w1 @ [ErrorLog ''Already initialized'']\<rparr>))
   \<and> (handler_network_class w2 = None \<longrightarrow>
      fs_handler_finalize w2 =
        (S_FAIL, w2\<lparr>trace := trace w2 @ [ErrorLog ''Already finalized'']\<rparr>))
   \<and> (fst (fs_handler_finalize w3) = S_SUCCESS \<longrightarrow>
      handler_network_class (snd (fs_handler_finalize w3)) = None \<and>
      handler_func_map (snd (fs_handler_finalize w3)) = None \<and>
      fs_handler_init nc (snd (fs_handler_finalize w3)) =
        (S_SUCCESS, (snd (fs_handler_finalize w3))
                      \<lparr>handler_network_class := nc, handler_func_map := Some func_map_new\<rparr>))"
  (is "?A \<and> ?B \<and> ?C \<and> ?D \<and> ?E \<and> ?F")
proof -
  have A: ?A
    by (auto simp: fs_handler_init_def fs_handler_finalize_def S_ERROR_DEFAULT_def
        split: option.splits if_splits)
  have B: ?B
  proof
    assume h: "fs_handler_init (Some c) w = (S_SUCCESS, w') \<and>
       fs_handler_register e func_name fs_r dec_r enc_r w' = Done w''"
    from h have cls: "handler_network_class w' = Some c"
      and mp: "handler_func_map w' = Some func_map_new"
      by (auto simp: fs_handler_init_def split: if_splits)
    from h have reg: "fs_handler_register e func_name fs_r dec_r enc_r w' = Done w''" by simp
    from register_keeps_class [OF reg] cls have cls'': "handler_network_class w'' = Some c"
      by simp
    from register_map [OF reg mp]
    have mp'': "handler_func_map w'' =
        Some [fs_proc_string_hash e func_name \<mapsto>
                \<lparr>fs_routine = fs_r, dec_routine = dec_r, enc_routine = enc_r\<rparr>]"
      by (simp add: func_map_new_def)
    from cls'' mp'' show "handler_func_map w'' =
        Some [fs_proc_string_hash e func_name \<mapsto>
                \<lparr>fs_routine = fs_r, dec_routine = dec_r, enc_routine = enc_r\<rparr>] \<and>
      fs_handler_init nc w'' =
        (S_FAIL, w''\<lparr>trace := trace w'' @ [ErrorLog ''Already initialized'']\<rparr>) \<and>
      fst (fs_handler_finalize w'') = S_SUCCESS"
      by (simp add: fs_handler_init_def fs_handler_finalize_def S_ERROR_DEFAULT_def)
  qed
  have C: ?C
    using register_keeps_class [of e func_name fs_r dec_r enc_r w1 w1']
      get_input_keeps_statics [of handle w1 r x w1']
      complete_keeps_statics [of e handle out_struct w1 r w1']
    by blast
  have D: ?D
    by (auto simp: fs_handler_init_def S_ERROR_DEFAULT_def)
  have E: ?E
    by (auto simp: fs_handler_finalize_def S_ERROR_DEFAULT_def)
  have F: ?F
    by (auto simp: fs_handler_init_def fs_handler_finalize_def S_ERROR_DEFAULT_def
        split: option.splits)
  from A B C D E F show ?thesis by blast
qed

theorem fs_handler_init_finalize_once_witness:
  "fs_handler_init (Some 100) w0 = (S_SUCCESS, w_srv) \<and>
   fs_handler_register env0 ''foo'' 1 dec0 enc0 w_srv = Done (w_reg 1) \<and>
   handler_func_map (w_reg 1) = Some [3 \<mapsto> foo_info 1] \<and>
   fs_handler_init (Some 200) (w_reg 1) =
     (S_FAIL, (w_reg 1)\<lparr>trace := [ErrorLog ''Already initialized'']\<rparr>) \<and>
   handler_func_map (snd (fs_handler_init (Some 200) (w_reg 1))) = Some [3 \<mapsto> foo_info 1] \<and>
   handler_network_class (snd (fs_handler_init (Some 200) (w_reg 1))) = Some 100 \<and>
   fst (fs_handler_finalize (w_reg 1)) = S_SUCCESS \<and>
   fst (fs_handler_finalize (snd (fs_handler_finalize (w_reg 1)))) = S_FAIL \<and>
   fs_handler_finalize w0 =
     (S_FAIL, w0\<lparr>trace := trace w0 @ [ErrorLog ''Already finalized'']\<rparr>) \<and>
   fst (fs_handler_init (Some 200) (snd (fs_handler_finalize (w_reg 1)))) = S_SUCCESS \<and>
   handler_network_class (snd (fs_handler_init (Some 200) (snd (fs_handler_finalize (w_reg 1))))) =
     Some 200 \<and>
   handler_network_class w_got = handler_network_class w_call \<and>
   handler_network_class (w_done [0, 0, 0, 0, 7, 7]) = handler_network_class w_call"
proof -
  have i: "fs_handler_init (Some 100) w0 = (S_SUCCESS, w_srv)"
    by (simp add: fs_handler_init_def w0_def w_srv_def)
  have r: "fs_handler_register env0 ''foo'' 1 dec0 enc0 w_srv = Done (w_reg 1)"
    by (simp add: handler_defs env0_def w_srv_def w0_def w_reg_def func_map_new_def
        foo_info_def)
  have g: "fs_handler_get_input 12 w_call = Done (S_SUCCESS, Some [1, 2, 3], w_got)"
    by (simp add: handler_defs w_call_def w_got_def foo_info_def dec0_def)
  have c: "fs_handler_complete env0 12 [7, 7] w_call =
             Done (S_SUCCESS, w_done [0, 0, 0, 0, 7, 7])"
    by (simp add: handler_defs w_call_def w_done_def foo_info_def enc0_def env0_def
        fun_upd_twist)
  have a: "handler_network_class (w_reg 1) \<noteq> None" by (simp add: w_reg_def)
  have b: "handler_network_class w0 = None" by (simp add: w0_def)
  have f: "fst (fs_handler_finalize (w_reg 1)) = S_SUCCESS"
    by (simp add: fs_handler_finalize_def w_reg_def)
  have m: "handler_func_map (w_reg 1) = Some [3 \<mapsto> foo_info 1]" by (simp add: w_reg_def)
  have t: "trace (w_reg 1) = []" by (simp add: w_reg_def)
  have k: "handler_network_class (w_reg 1) = Some 100" by (simp add: w_reg_def)
  note T1 = fs_handler_init_finalize_once
         [where c = 100 and w = w0 and w' = w_srv and w'' = "w_reg 1" and e = env0
            and func_name = "''foo''" and fs_r = 1 and dec_r = dec0 and enc_r = enc0
            and nc = "Some 200" and ?w1.0 = "w_reg 1" and ?w2.0 = w0 and ?w3.0 = "w_reg 1"]
  note T2 = fs_handler_init_finalize_once
         [where ?w1.0 = w_call and ?w1' = w_got and handle = 12 and r = S_SUCCESS
            and x = "Some [1, 2, 3]"]
  note T3 = fs_handler_init_finalize_once
         [where ?w1.0 = w_call and ?w1' = "w_done [0, 0, 0, 0, 7, 7]" and handle = 12
            and r = S_SUCCESS and e = env0 and out_struct = "[7, 7]"]
  have G: "handler_network_class w_got = handler_network_class w_call"
    using T2 g by blast
  have C: "handler_network_class (w_done [0, 0, 0, 0, 7, 7]) = handler_network_class w_call"
    using T3 c by blast
  have S2: "fst (fs_handler_finalize (snd (fs_handler_finalize (w_reg 1)))) = S_FAIL"
    by (simp add: fs_handler_finalize_def w_reg_def)
  from T1 i r a b f m t k G C S2 show ?thesis
    by simp
qed


subsection \<open>fs_handler_get_input: the failed lookup\<close>

text \<open>
  Claim C10: when the handle owns a receive buffer and a decode context and the registry
  has no entry for the handle's operation id, \<open>fs_handler_get_input\<close> returns failure,
  stores nothing in the caller's struct, and leaves everything but the log as it was:
  the handle keeps both references, and neither the buffer nor the context is freed.
\<close>

theorem fs_handler_get_input_lookup_failure_atomic:
  assumes "handles w handle = Some ph" and "recv_buf ph = Some rb" and "dec_proc ph = Some dp"
    and "func_map_lookup (handler_func_map w) (id_h ph) = Done None"
  shows "fs_handler_get_input handle w =
           Done (S_FAIL, None, w\<lparr>trace := trace w @ [ErrorLog ''func_map_lookup failed'']\<rparr>)"
  using assms by (simp add: fs_handler_get_input_def obind_def S_ERROR_DEFAULT_def)

theorem fs_handler_get_input_lookup_failure_atomic_witness:
  "fs_handler_get_input 10 w_dropped =
     Done (S_FAIL, None,
           w_dropped\<lparr>trace := trace w_dropped @ [ErrorLog ''func_map_lookup failed'']\<rparr>)"
proof -
  let ?ph = "\<lparr>id_h = 7, addr = Some 12, tag = 9, dec_proc = Some 13,
              recv_buf = Some 11, in_struct = None\<rparr>"
  have a: "handles w_dropped 10 = Some ?ph" by (simp add: w_dropped_def)
  have b: "recv_buf ?ph = Some 11" by simp
  have c: "dec_proc ?ph = Some 13" by simp
  have d: "func_map_lookup (handler_func_map w_dropped) (id_h ?ph) = Done None"
    by (simp add: w_dropped_def func_map_lookup_def func_map_new_def)
  from fs_handler_get_input_lookup_failure_atomic [OF a b c d] show ?thesis .
qed


end
